theory Spec2Isabelle
  imports
    Main
    "HOL-Library.Char_ord"
    "HOL-Library.List_Lexorder"
    "HOL-Library.Sublist"
    "HOL-Library.AList"
begin

section \<open>Compiled rule patterns\<close>

text \<open>
  Every pattern of \<^verbatim>\<open>build_rules\<close> has the one shape
  \<^verbatim>\<open>\b(alt1|alt2|...|altn)\b\<close>, compiled with \<^verbatim>\<open>re.IGNORECASE\<close>: a word
  boundary, one capturing group of alternatives, a word boundary.  An alternative is a
  sequence of literal characters, optional literal characters (\<^verbatim>\<open>s?\<close>, greedy) and
  character classes (\<^verbatim>\<open>[ -]\<close>).  A compiled pattern is therefore the list of its
  alternatives.  A string is the list of its code points, and a \<open>char\<close> is a code point
  below 256: the word characters of \<^verbatim>\<open>\b\<close>, the case folding of
  \<^verbatim>\<open>re.IGNORECASE\<close> and the white space of \<^verbatim>\<open>str.strip\<close> are those of the
  language on this range (the letters, digits and underscore of ASCII, and the letters and
  digits among the code points from 128 to 255).  Texts with a code point from 256 on
  are outside the model.
\<close>

datatype atom = Lit char | Opt char | Cls "char list"

type_synonym regex = "atom list list"

definition lit :: "string \<Rightarrow> atom list" where
  "lit s = map Lit s"

definition is_word :: "char \<Rightarrow> bool" where
  "is_word c =
     (let n = (of_char c :: nat)
      in (48 \<le> n \<and> n \<le> 57) \<or> (65 \<le> n \<and> n \<le> 90) \<or> n = 95 \<or> (97 \<le> n \<and> n \<le> 122)
         \<or> n = 170 \<or> (178 \<le> n \<and> n \<le> 179) \<or> n = 181 \<or> (185 \<le> n \<and> n \<le> 186)
         \<or> (188 \<le> n \<and> n \<le> 190) \<or> (192 \<le> n \<and> n \<le> 214) \<or> (216 \<le> n \<and> n \<le> 246)
         \<or> (248 \<le> n \<and> n \<le> 255))"

definition lower :: "char \<Rightarrow> char" where
  "lower c =
     (let n = (of_char c :: nat)
      in if (65 \<le> n \<and> n \<le> 90) \<or> (192 \<le> n \<and> n \<le> 222 \<and> n \<noteq> 215) then char_of (n + 32)
         else c)"

definition ci_eq :: "char \<Rightarrow> char \<Rightarrow> bool" where
  "ci_eq c t = (lower c = lower t)"

text \<open>
  \<open>match_atoms alt s\<close> lists the prefixes of \<open>s\<close> that the alternative can consume, in
  the order in which the backtracking matcher tries them: a greedy optional character is
  first taken, then skipped.
\<close>

fun match_atoms :: "atom list \<Rightarrow> string \<Rightarrow> string list" where
  "match_atoms [] s = [[]]"
| "match_atoms (Lit c # rest) [] = []"
| "match_atoms (Lit c # rest) (t # ts) =
     (if ci_eq c t then map ((#) t) (match_atoms rest ts) else [])"
| "match_atoms (Opt c # rest) [] = match_atoms rest []"
| "match_atoms (Opt c # rest) (t # ts) =
     (if ci_eq c t then map ((#) t) (match_atoms rest ts) else []) @ match_atoms rest (t # ts)"
| "match_atoms (Cls cs # rest) [] = []"
| "match_atoms (Cls cs # rest) (t # ts) =
     (if list_ex (\<lambda>c. ci_eq c t) cs then map ((#) t) (match_atoms rest ts) else [])"

fun word_at :: "char option \<Rightarrow> bool" where
  "word_at None = False"
| "word_at (Some c) = is_word c"

text \<open>\<^verbatim>\<open>\b\<close> between the character before a position and the character at it; the ends
  of the text count as non-word characters.\<close>

definition boundary :: "char option \<Rightarrow> char option \<Rightarrow> bool" where
  "boundary p n = (word_at p \<noteq> word_at n)"

definition head_opt :: "string \<Rightarrow> char option" where
  "head_opt s = (case s of [] \<Rightarrow> None | c # _ \<Rightarrow> Some c)"

definition last_opt :: "char option \<Rightarrow> string \<Rightarrow> char option" where
  "last_opt p m = (if m = [] then p else Some (last m))"

text \<open>
  One match attempt at a position: \<open>prev\<close> is the character before the position and
  \<open>s\<close> the text from it.  The alternatives are tried in order, and the first candidate
  after which the closing \<^verbatim>\<open>\b\<close> holds is the match.  \<open>must_advance\<close> is the
  matcher's flag that refuses an empty match right after an empty match.
\<close>

definition match_here :: "regex \<Rightarrow> bool \<Rightarrow> char option \<Rightarrow> string \<Rightarrow> string option" where
  "match_here re must_advance prev s =
     (if boundary prev (head_opt s)
      then find (\<lambda>m. boundary (last_opt prev m) (head_opt (drop (length m) s))
                      \<and> (if must_advance then m \<noteq> [] else True))
             (concat (map (\<lambda>alt. match_atoms alt s) re))
      else None)"

text \<open>The leftmost match at or after the position: how many characters are skipped, and
  the matched text.  Only the first attempt is made under \<open>must_advance\<close>.\<close>

fun search :: "regex \<Rightarrow> bool \<Rightarrow> char option \<Rightarrow> string \<Rightarrow> (nat \<times> string) option" where
  "search re ma prev [] = map_option (Pair 0) (match_here re ma prev [])"
| "search re ma prev (c # cs) =
     (case match_here re ma prev (c # cs) of
        Some m \<Rightarrow> Some (0, m)
      | None \<Rightarrow> map_option (\<lambda>(k, m). (Suc k, m)) (search re False (Some c) cs))"

lemma match_atoms_length: "m \<in> set (match_atoms alt s) \<Longrightarrow> length m \<le> length s"
  by (induction alt s arbitrary: m rule: match_atoms.induct) (auto split: if_splits)

lemma match_here_length: "match_here re ma prev s = Some m \<Longrightarrow> length m \<le> length s"
  by (auto simp: match_here_def find_Some_iff split: if_splits
           dest!: nth_mem intro: match_atoms_length)

lemma match_here_advance: "match_here re True prev s = Some m \<Longrightarrow> m \<noteq> []"
  by (auto simp: match_here_def find_Some_iff split: if_splits)

lemma search_length: "search re ma prev s = Some (k, m) \<Longrightarrow> k + length m \<le> length s"
proof (induction s arbitrary: ma prev k)
  case Nil
  then show ?case by (auto dest: match_here_length)
next
  case (Cons c cs)
  show ?case
  proof (cases "match_here re ma prev (c # cs)")
    case None
    with Cons.prems obtain k' where "search re False (Some c) cs = Some (k', m)" "k = Suc k'"
      by auto
    with Cons.IH show ?thesis by fastforce
  next
    case (Some m')
    with Cons.prems show ?thesis by (auto dest: match_here_length)
  qed
qed

lemma search_advance: "search re True prev s = Some (k, m) \<Longrightarrow> 0 < k + length m"
  by (cases s) (auto dest: match_here_advance split: option.splits)

text \<open>
  \<^verbatim>\<open>pattern.findall(text)\<close>: the matches from left to right, none overlapping; since the
  pattern is one group, each result is the text the group matched.  After a match the
  scan resumes at its end.
\<close>

function findall_from :: "regex \<Rightarrow> bool \<Rightarrow> char option \<Rightarrow> string \<Rightarrow> string list" where
  "findall_from re ma prev s =
     (case search re ma prev s of
        None \<Rightarrow> []
      | Some (k, m) \<Rightarrow>
          m # findall_from re (m = []) (last_opt prev (take (k + length m) s))
                (drop (k + length m) s))"
  by pat_completeness auto
termination
proof (relation "measure (\<lambda>(re, ma, prev, s). 2 * length s + (if ma then 0 else 1))")
  show "wf (measure (\<lambda>(re, ma, prev, s). 2 * length s + (if ma then 0 else 1)))"
    by simp
next
  fix re :: regex and ma :: bool and prev :: "char option" and s :: string
    and x2 :: "nat \<times> string" and k :: nat and m :: string
  assume found: "search re ma prev s = Some x2" and x2: "(k, m) = x2"
  from found x2 have le: "k + length m \<le> length s"
    by (auto dest: search_length)
  have adv: "0 < k + length m" if "ma"
    using that found x2 by (auto dest: search_advance)
  show "((re, m = [], last_opt prev (take (k + length m) s), drop (k + length m) s),
         (re, ma, prev, s))
        \<in> measure (\<lambda>(re, ma, prev, s). 2 * length s + (if ma then 0 else 1))"
  proof (cases "m = []")
    case True
    with adv le show ?thesis by (cases ma) auto
  next
    case False
    then have pos: "0 < k + length m" by simp
    from le pos have "Suc (2 * (length s - (k + length m))) < 2 * length s"
      by arith
    moreover from le pos have "length s - (k + length m) < length s"
      by arith
    ultimately show ?thesis using False by (cases ma) simp_all
  qed
qed

declare findall_from.simps [simp del]

definition findall :: "regex \<Rightarrow> string \<Rightarrow> string list" where
  "findall re text = findall_from re False None text"

section \<open>The rule catalogue\<close>

text \<open>
  \<^verbatim>\<open>build_rules\<close> turns each row \<^verbatim>\<open>(rule, severity, pattern)\<close> of its table into a
  dictionary with the keys \<^verbatim>\<open>rule\<close>, \<^verbatim>\<open>severity\<close> and \<^verbatim>\<open>regex\<close>.  Severities are
  the strings of the source.  The third component of a row is the pattern in compiled
  form; the comment beside it is the pattern as the source writes it.
\<close>

record compliance_rule =
  rule :: string
  severity :: string
  regex :: regex

definition raw_rules :: "(string \<times> (string \<times> string \<times> regex) list) list" where
  \<open>raw_rules =
    [(''Skincare'',
      [(''No disease treatment claims'', ''critical'',
          \<comment> \<open>\<^verbatim>\<open>\b(cure|treat|heal|remedy)\b\<close>\<close>
          [lit ''cure'', lit ''treat'', lit ''heal'', lit ''remedy'']),
       (''No guaranteed results claims'', ''critical'',
          \<comment> \<open>\<^verbatim>\<open>\b(guaranteed|100%|always works|permanent)\b\<close>\<close>
          [lit ''guaranteed'', lit ''100%'', lit ''always works'', lit ''permanent'']),
       (''Must include '' @ [CHR 0x27] @ ''results may vary'' @ [CHR 0x27] @ '' for efficacy claims'',
          ''warning'',
          \<comment> \<open>\<^verbatim>\<open>\b(clinically proven|dermatologist tested)\b\<close>\<close>
          [lit ''clinically proven'', lit ''dermatologist tested'']),
       (''No comparative superiority without evidence'', ''warning'',
          \<comment> \<open>\<^verbatim>\<open>\b(best|#1|number one|superior to)\b\<close>\<close>
          [lit ''best'', lit ''#1'', lit ''number one'', lit ''superior to'']),
       (''FDA disclaimer required for structure/function claims'', ''info'',
          \<comment> \<open>\<^verbatim>\<open>\b(supports|promotes|helps maintain)\b\<close>\<close>
          [lit ''supports'', lit ''promotes'', lit ''helps maintain''])]),
     (''Food & Beverage'',
      [(''No disease prevention claims'', ''critical'',
          \<comment> \<open>\<^verbatim>\<open>\b(prevents?|cures?|treats?|fights? disease)\b\<close>\<close>
          [lit ''prevent'' @ [Opt CHR ''s''], lit ''cure'' @ [Opt CHR ''s''],
           lit ''treat'' @ [Opt CHR ''s''], lit ''fight'' @ [Opt CHR ''s''] @ lit '' disease'']),
       (''No misleading health claims'', ''critical'',
          \<comment> \<open>\<^verbatim>\<open>\b(superfood|miracle|magic)\b\<close>\<close>
          [lit ''superfood'', lit ''miracle'', lit ''magic'']),
       (''Allergen info should be accessible'', ''warning'',
          \<comment> \<open>\<^verbatim>\<open>\b(contains|may contain|allergen)\b\<close>\<close>
          [lit ''contains'', lit ''may contain'', lit ''allergen'']),
       (''Nutritional claims must be substantiated'', ''warning'',
          \<comment> \<open>\<^verbatim>\<open>\b(high protein|low sugar|zero calorie|no sugar)\b\<close>\<close>
          [lit ''high protein'', lit ''low sugar'', lit ''zero calorie'', lit ''no sugar'']),
       (''Organic claims require certification'', ''info'',
          \<comment> \<open>\<^verbatim>\<open>\b(organic|certified organic)\b\<close>\<close>
          [lit ''organic'', lit ''certified organic''])]),
     (''Household'',
      [(''No absolute safety claims'', ''critical'',
          \<comment> \<open>\<^verbatim>\<open>\b(100% safe|completely safe|totally harmless)\b\<close>\<close>
          [lit ''100% safe'', lit ''completely safe'', lit ''totally harmless'']),
       (''No '' @ [CHR 0x27] @ ''chemical-free'' @ [CHR 0x27] @ '' claims (misleading)'', ''warning'',
          \<comment> \<open>\<^verbatim>\<open>\b(chemical[ -]free|no chemicals)\b\<close>\<close>
          [lit ''chemical'' @ [Cls '' -''] @ lit ''free'', lit ''no chemicals'']),
       (''EPA certification must be accurate'', ''critical'',
          \<comment> \<open>\<^verbatim>\<open>\b(EPA certified|EPA approved)\b\<close>\<close>
          [lit ''EPA certified'', lit ''EPA approved'']),
       (''Efficacy claims need qualification'', ''warning'',
          \<comment> \<open>\<^verbatim>\<open>\b(kills 99|eliminates all|destroys)\b\<close>\<close>
          [lit ''kills 99'', lit ''eliminates all'', lit ''destroys''])]),
     (''Haircare'',
      [(''No permanent change claims without evidence'', ''critical'',
          \<comment> \<open>\<^verbatim>\<open>\b(permanent|forever|irreversible)\b\<close>\<close>
          [lit ''permanent'', lit ''forever'', lit ''irreversible'']),
       (''No medical claims'', ''critical'',
          \<comment> \<open>\<^verbatim>\<open>\b(treats? hair loss|cures? dandruff|medical)\b\<close>\<close>
          [lit ''treat'' @ [Opt CHR ''s''] @ lit '' hair loss'',
           lit ''cure'' @ [Opt CHR ''s''] @ lit '' dandruff'', lit ''medical'']),
       (''Time-based claims need substantiation'', ''warning'',
          \<comment> \<open>\<^verbatim>\<open>\b(instant|immediate|overnight)\b\<close>\<close>
          [lit ''instant'', lit ''immediate'', lit ''overnight''])]),
     (''Baby Care'',
      [(''No absolute safety claims'', ''critical'',
          \<comment> \<open>\<^verbatim>\<open>\b(100% safe|completely safe|zero risk)\b\<close>\<close>
          [lit ''100% safe'', lit ''completely safe'', lit ''zero risk'']),
       (''Medical endorsement must be verified'', ''critical'',
          \<comment> \<open>\<^verbatim>\<open>\b(doctor recommended|clinically proven|medically approved)\b\<close>\<close>
          [lit ''doctor recommended'', lit ''clinically proven'', lit ''medically approved'']),
       (''Age appropriateness must be specified'', ''warning'',
          \<comment> \<open>\<^verbatim>\<open>\b(all ages|any age|newborn)\b\<close>\<close>
          [lit ''all ages'', lit ''any age'', lit ''newborn'']),
       (''Ingredient transparency required'', ''info'',
          \<comment> \<open>\<^verbatim>\<open>\b(natural|organic|pure)\b\<close>\<close>
          [lit ''natural'', lit ''organic'', lit ''pure''])])]\<close>

definition build_rules :: "(string \<times> compliance_rule list) list" where
  "build_rules =
     map (\<lambda>(category, rows).
            (category,
             map (\<lambda>(name, sev, pattern). \<lparr>rule = name, severity = sev, regex = pattern\<rparr>) rows))
         raw_rules"

definition COMPLIANCE_RULES :: "(string \<times> compliance_rule list) list" where
  "COMPLIANCE_RULES = build_rules"

text \<open>\<^verbatim>\<open>COMPLIANCE_RULES.get(category, [])\<close>: an unknown category has no rules.\<close>

definition rules_for :: "string \<Rightarrow> compliance_rule list" where
  "rules_for category =
     (case map_of COMPLIANCE_RULES category of None \<Rightarrow> [] | Some rs \<Rightarrow> rs)"

section \<open>Compliance evaluation\<close>

text \<open>An issue is the dictionary with the keys \<^verbatim>\<open>rule\<close>, \<^verbatim>\<open>severity\<close> and
  \<^verbatim>\<open>matches\<close> that \<^verbatim>\<open>check_compliance\<close> appends.\<close>

record issue =
  issue_rule :: string
  issue_severity :: string
  matches :: "string list"

text \<open>
  The loop of \<^verbatim>\<open>check_compliance\<close> over the rules of the category, with the list
  \<^verbatim>\<open>issues\<close> built so far.  \<^verbatim>\<open>sorted(set(matches))\<close> orders the distinct matched
  texts as Python orders strings: by code point, a proper prefix first.
\<close>

fun check_loop :: "issue list \<Rightarrow> compliance_rule list \<Rightarrow> string \<Rightarrow> issue list" where
  "check_loop issues [] text = issues"
| "check_loop issues (r # rs) text =
     (let found = findall (regex r) text
      in if found \<noteq> []
         then check_loop
                (issues @ [\<lparr>issue_rule = rule r, issue_severity = severity r,
                             matches = sorted_list_of_set (set found)\<rparr>])
                rs text
         else check_loop issues rs text)"

definition check_compliance :: "string \<Rightarrow> string \<Rightarrow> issue list" where
  "check_compliance text category = check_loop [] (rules_for category) text"

definition get_compliance_score :: "issue list \<Rightarrow> string" where
  "get_compliance_score issues =
     (let severities = set (map issue_severity issues)
      in if ''critical'' \<in> severities then ''Needs Review''
         else if ''warning'' \<in> severities then ''Caution''
         else if ''info'' \<in> severities then ''Minor Notes''
         else ''Compliant'')"

section \<open>Reference data\<close>

text \<open>
  The products, brand style guides and channels are dictionaries with fixed keys; each
  becomes a record whose fields carry the key names behind a prefix.  A dictionary built
  from a list of pairs is looked up through \<open>map_of\<close>.
\<close>

record product =
  p_id :: string
  p_name :: string
  p_category :: string
  p_brand :: string
  p_features :: "string list"
  p_benefits :: "string list"
  p_usage :: string
  p_targetAudience :: string
  p_pricePoint :: string
  p_usp :: string

definition PRODUCT_DATABASE :: "product list" where
  "PRODUCT_DATABASE =
    [\<lparr>p_id = ''p1'', p_name = ''PureGlow Vitamin C Serum'', p_category = ''Skincare'',
       p_brand = ''PureGlow Naturals'',
       p_features = [''30% Vitamin C'', ''Hyaluronic Acid'', ''Ferulic Acid'', ''Vegan'',
                     ''Cruelty-free''],
       p_benefits = [''Brightens skin tone'', ''Reduces dark spots'',
                     ''Boosts collagen production'', ''Deep hydration''],
       p_usage = ''Apply 3-4 drops to clean face morning and evening. Follow with moisturizer and SPF.'',
       p_targetAudience = ''Women 25-45, skincare enthusiasts, clean beauty advocates'',
       p_pricePoint = ''$34.99'',
       p_usp = ''Clinical-grade Vitamin C in a clean, sustainable formula''\<rparr>,
     \<lparr>p_id = ''p2'', p_name = ''FreshBite Protein Crunch Bars'', p_category = ''Food & Beverage'',
       p_brand = ''FreshBite Co.'',
       p_features = [''20g protein'', ''Gluten-free'', ''No artificial sweeteners'', ''Non-GMO'',
                     ''5g fiber''],
       p_benefits = [''Sustained energy'', ''Muscle recovery support'', ''Guilt-free snacking'',
                     ''Keeps you full longer''],
       p_usage = ''Enjoy as a post-workout snack or mid-day energy boost. Best served chilled.'',
       p_targetAudience = ''Fitness enthusiasts 18-40, health-conscious consumers, busy professionals'',
       p_pricePoint = ''$2.99/bar'',
       p_usp = ''Real food ingredients with macro-friendly nutrition''\<rparr>,
     \<lparr>p_id = ''p3'', p_name = ''EcoClean All-Purpose Spray'', p_category = ''Household'',
       p_brand = ''EcoClean Home'',
       p_features = [''Plant-based formula'', ''Biodegradable'', ''No harsh chemicals'',
                     ''Recyclable packaging'', ''EPA Safer Choice certified''],
       p_benefits = [''Cuts grease effectively'', ''Safe around kids and pets'',
                     ''Fresh lavender scent'', ''Streak-free clean''],
       p_usage = ''Spray directly on surfaces. Wipe with cloth. No rinsing needed.'',
       p_targetAudience = ''Eco-conscious families, parents with young children, sustainability advocates'',
       p_pricePoint = ''$6.49'',
       p_usp = ''Powerful cleaning without compromising your family'' @ [CHR 0x27]
               @ ''s health or the planet''\<rparr>,
     \<lparr>p_id = ''p4'', p_name = ''ZenBrew Adaptogenic Coffee'', p_category = ''Food & Beverage'',
       p_brand = ''ZenBrew'',
       p_features = [''Organic Arabica'', ''Lion'' @ [CHR 0x27] @ ''s Mane mushroom'',
                     ''Ashwagandha'', ''L-Theanine'', ''Medium roast''],
       p_benefits = [''Calm focus without jitters'', ''Enhanced cognitive function'',
                     ''Stress reduction'', ''Smooth, rich flavor''],
       p_usage = ''Brew 2 tbsp per 6oz water. French press or drip recommended. Enjoy hot or iced.'',
       p_targetAudience = ''Wellness-focused professionals 25-50, biohackers, mindful consumers'',
       p_pricePoint = ''$24.99/bag'',
       p_usp = ''Where ancient adaptogens meet artisan coffee''\<rparr>,
     \<lparr>p_id = ''p5'', p_name = ''LuxeLocks Keratin Repair Mask'', p_category = ''Haircare'',
       p_brand = ''LuxeLocks Paris'',
       p_features = [''Keratin complex'', ''Argan oil'', ''Silk proteins'', ''Color-safe'',
                     ''Sulfate-free''],
       p_benefits = [''Repairs damage in one use'', ''72-hour frizz control'',
                     ''Salon-quality results at home'', ''Restores shine and elasticity''],
       p_usage = ''Apply generously to damp hair. Leave for 5-10 minutes. Rinse thoroughly. Use weekly.'',
       p_targetAudience = ''Women 20-50 with color-treated or damaged hair, salon quality seekers'',
       p_pricePoint = ''$18.99'',
       p_usp = ''Parisian salon science in every jar''\<rparr>,
     \<lparr>p_id = ''p6'', p_name = ''TinyTots Organic Baby Wipes'', p_category = ''Baby Care'',
       p_brand = ''TinyTots'',
       p_features = [''99% water'', ''Organic cotton'', ''Hypoallergenic'', ''Fragrance-free'',
                     ''Compostable''],
       p_benefits = [''Gentle on sensitive skin'', ''No irritation or rashes'',
                     ''Eco-friendly disposal'', ''Pediatrician recommended''],
       p_usage = ''Gently wipe and dispose. Safe for face, hands, and diaper area.'',
       p_targetAudience = ''New parents, eco-conscious families, parents of babies with sensitive skin'',
       p_pricePoint = ''$8.99/80ct'',
       p_usp = ''Pure enough for the most precious skin on earth''\<rparr>]"

record brand_guide =
  b_tone :: string
  b_voiceTraits :: "string list"
  b_doWords :: "string list"
  b_dontWords :: "string list"
  b_tagline :: string

definition BRAND_STYLE_GUIDES :: "(string \<times> brand_guide) list" where
  "BRAND_STYLE_GUIDES =
    [(''PureGlow Naturals'',
      \<lparr>b_tone = ''Sophisticated, science-backed yet approachable, empowering'',
        b_voiceTraits = [''Clean'', ''Confident'', ''Educational'', ''Aspirational''],
        b_doWords = [''radiance'', ''transform'', ''clinical-grade'', ''pure'', ''glow'', ''reveal''],
        b_dontWords = [''cheap'', ''miracle'', ''cure'', ''guaranteed results'', ''anti-aging''],
        b_tagline = ''Science Meets Nature''\<rparr>),
     (''FreshBite Co.'',
      \<lparr>b_tone = ''Energetic, fun, motivational, straightforward'',
        b_voiceTraits = [''Bold'', ''Active'', ''Real'', ''Community-driven''],
        b_doWords = [''fuel'', ''crush it'', ''real food'', ''power'', ''clean'', ''strong''],
        b_dontWords = [''diet'', ''low-cal'', ''skinny'', ''cheat meal'', ''guilt''],
        b_tagline = ''Fuel Your Fire''\<rparr>),
     (''EcoClean Home'',
      \<lparr>b_tone = ''Warm, trustworthy, eco-conscious, family-friendly'',
        b_voiceTraits = [''Caring'', ''Transparent'', ''Sustainable'', ''Reliable''],
        b_doWords = [''protect'', ''pure'', ''planet-friendly'', ''safe'', ''naturally'', ''home''],
        b_dontWords = [''toxic'', ''chemical-free (misleading)'', ''100% safe'', ''kills all''],
        b_tagline = ''Clean Home, Clean Planet''\<rparr>),
     (''ZenBrew'',
      \<lparr>b_tone = ''Mindful, premium, intellectual, calm confidence'',
        b_voiceTraits = [''Wise'', ''Serene'', ''Elevated'', ''Intentional''],
        b_doWords = [''ritual'', ''clarity'', ''flow state'', ''craft'', ''mindful'', ''elevate''],
        b_dontWords = [''wired'', ''buzzed'', ''caffeine hit'', ''basic'', ''average''],
        b_tagline = ''Clarity in Every Cup''\<rparr>),
     (''LuxeLocks Paris'',
      \<lparr>b_tone = ''Luxurious, French-inspired elegance, expert authority'',
        b_voiceTraits = [''Glamorous'', ''Expert'', ''Indulgent'', ''Confident''],
        b_doWords = [''luxe'', ''transform'', ''salon-grade'', ''nourish'', ''silk'', ''radiant''],
        b_dontWords = [''cheap'', ''basic'', ''quick fix'', ''drugstore'', ''no-fuss''],
        b_tagline = ''L'' @ [CHR 0x27] @ ''Art du Cheveu''\<rparr>),
     (''TinyTots'',
      \<lparr>b_tone = ''Tender, reassuring, pure, parent-to-parent'',
        b_voiceTraits = [''Gentle'', ''Trustworthy'', ''Pure'', ''Loving''],
        b_doWords = [''gentle'', ''pure'', ''precious'', ''nurture'', ''safe'', ''soft''],
        b_dontWords = [''tough'', ''strong'', ''powerful'', ''aggressive'', ''extreme''],
        b_tagline = ''Pure Love, Pure Care''\<rparr>)]"

record channel =
  c_id :: string
  c_name :: string
  c_maxLength :: int
  c_format :: string

definition CHANNELS :: "channel list" where
  "CHANNELS =
    [\<lparr>c_id = ''instagram'', c_name = ''Instagram Post'', c_maxLength = 2200,
       c_format = ''Visual-first caption with hashtags''\<rparr>,
     \<lparr>c_id = ''facebook'', c_name = ''Facebook Ad'', c_maxLength = 1000,
       c_format = ''Engaging ad copy with CTA''\<rparr>,
     \<lparr>c_id = ''email'', c_name = ''Email Campaign'', c_maxLength = 3000,
       c_format = ''Subject line + body with sections''\<rparr>,
     \<lparr>c_id = ''twitter'', c_name = ''X/Twitter Post'', c_maxLength = 280,
       c_format = ''Concise, punchy with hashtags''\<rparr>,
     \<lparr>c_id = ''product_page'', c_name = ''Product Page'', c_maxLength = 5000,
       c_format = ''SEO-optimized product description''\<rparr>,
     \<lparr>c_id = ''print_ad'', c_name = ''Print Ad'', c_maxLength = 500,
       c_format = ''Headline + body + tagline''\<rparr>,
     \<lparr>c_id = ''tvc_script'', c_name = ''TV/Video Script'', c_maxLength = 3000,
       c_format = ''30-second script with visuals''\<rparr>,
     \<lparr>c_id = ''sms'', c_name = ''SMS/WhatsApp'', c_maxLength = 160,
       c_format = ''Short promotional message''\<rparr>]"

section \<open>Values of the generation reply, and errors\<close>

text \<open>
  What \<^verbatim>\<open>json.loads\<close> returns: a dictionary is the list of its items in insertion
  order, read through \<open>map_of\<close> and written through \<open>AList.update\<close> (an existing key
  keeps its place, a new key goes to the end).  Numbers are integers: no branch of the
  code looks at a number.  Every exception the code can raise on these values is a
  constructor of \<open>error\<close>.
\<close>

datatype json =
    JNull
  | JBool bool
  | JNum int
  | JStr string
  | JArr "json list"
  | JObj "(string \<times> json) list"

datatype error =
    KeyError string
  | IndexError
  | TypeError
  | AttributeError
  | JSONDecodeError
  | RuntimeError string

section \<open>String helpers of the language\<close>

text \<open>\<^verbatim>\<open>sep.join(xs)\<close>; \<^verbatim>\<open>str.upper\<close>, which the code applies to the severities
  of the catalogue only, on ASCII letters; \<^verbatim>\<open>str(n)\<close> for an integer; and
  \<^verbatim>\<open>str.strip\<close> with the white space below code point 256.\<close>

fun join :: "string \<Rightarrow> string list \<Rightarrow> string" where
  "join sep [] = []"
| "join sep [x] = x"
| "join sep (x # y # ys) = x @ sep @ join sep (y # ys)"

definition upper :: "char \<Rightarrow> char" where
  "upper c = (let n = (of_char c :: nat) in if 97 \<le> n \<and> n \<le> 122 then char_of (n - 32) else c)"

fun str_nat :: "nat \<Rightarrow> string" where
  "str_nat n =
     (if n < 10 then [char_of (48 + n)] else str_nat (n div 10) @ [char_of (48 + n mod 10)])"

declare str_nat.simps [simp del]

definition str_int :: "int \<Rightarrow> string" where
  "str_int i = (if i < 0 then ''-'' @ str_nat (nat (- i)) else str_nat (nat i))"

definition is_space :: "char \<Rightarrow> bool" where
  "is_space c =
     (let n = (of_char c :: nat)
      in (9 \<le> n \<and> n \<le> 13) \<or> (28 \<le> n \<and> n \<le> 32) \<or> n = 133 \<or> n = 160)"

definition strip :: "string \<Rightarrow> string" where
  "strip s = rev (dropWhile is_space (rev (dropWhile is_space s)))"

text \<open>\<^verbatim>\<open>re.sub(r"```json|```", "", text)\<close>: from left to right, a fence with the word
  \<^verbatim>\<open>json\<close> is removed before a bare fence is tried.\<close>

fun remove_fences :: "string \<Rightarrow> string" where
  "remove_fences [] = []"
| "remove_fences (c # cs) =
     (if prefix ''```json'' (c # cs) then remove_fences (drop 7 (c # cs))
      else if prefix ''```'' (c # cs) then remove_fences (drop 3 (c # cs))
      else c # remove_fences cs)"

definition strip_json_fence :: "string \<Rightarrow> string" where
  "strip_json_fence text = strip (remove_fences text)"

section \<open>Prompt composition\<close>

text \<open>The request body of \<^verbatim>\<open>generate_for_channel\<close>; a message is its role and its
  content.\<close>

record payload =
  pl_model :: string
  pl_max_tokens :: nat
  pl_response_format :: string
  pl_messages :: "(string \<times> string) list"

definition rules_text :: "compliance_rule list \<Rightarrow> string" where
  "rules_text category_rules =
     join ''\<newline>'' (map (\<lambda>r. ''- '' @ map upper (severity r) @ '': '' @ rule r) category_rules)"

definition system_prompt :: "product \<Rightarrow> brand_guide \<Rightarrow> compliance_rule list \<Rightarrow> string" where
  \<open>system_prompt product brand category_rules =
     join ''\<newline>''
       [''You are an expert CPG marketing copywriter. You produce high-converting, brand-compliant marketing content.'',
        '''',
        ''BRAND VOICE GUIDE for "'' @ p_brand product @ ''":'',
        ''- Tone: '' @ b_tone brand,
        ''- Voice Traits: '' @ join '', '' (b_voiceTraits brand),
        ''- Preferred Words: '' @ join '', '' (b_doWords brand),
        ''- Avoid These Words: '' @ join '', '' (b_dontWords brand),
        ''- Brand Tagline: '' @ b_tagline brand,
        '''',
        ''COMPLIANCE RULES for '' @ p_category product @ '':'',
        rules_text category_rules,
        '''',
        ''You MUST respond ONLY with valid JSON. No markdown and no code fences.'',
        ''Schema:'',
        ''{'',
        ''  "variants": ['',
        ''    {'',
        ''      "label": "Variant A label",'',
        ''      "headline": "attention-grabbing headline",'',
        ''      "body": "the main marketing copy",'',
        ''      "cta": "call to action",'',
        ''      "hashtags": ["tag1", "tag2"],'',
        ''      "complianceNotes": "any compliance considerations"'',
        ''    }'',
        ''  ]'',
        ''}'']\<close>

definition user_prompt ::
  "product \<Rightarrow> channel \<Rightarrow> string \<Rightarrow> string \<Rightarrow> int \<Rightarrow> string \<Rightarrow> string" where
  "user_prompt product channel tone season num_variants custom_prompt =
     join ''\<newline>''
       [''Create '' @ str_int num_variants @ '' distinct marketing content variants for:'',
        '''',
        ''PRODUCT: '' @ p_name product,
        ''CATEGORY: '' @ p_category product,
        ''FEATURES: '' @ join '', '' (p_features product),
        ''BENEFITS: '' @ join '', '' (p_benefits product),
        ''USAGE: '' @ p_usage product,
        ''TARGET AUDIENCE: '' @ p_targetAudience product,
        ''PRICE: '' @ p_pricePoint product,
        ''USP: '' @ p_usp product,
        '''',
        ''CHANNEL: '' @ c_name channel,
        ''FORMAT: '' @ c_format channel,
        ''MAX LENGTH: '' @ str_int (c_maxLength channel) @ '' characters'',
        ''CAMPAIGN TONE: '' @ tone,
        ''SEASON/OCCASION: '' @ season,
        (if custom_prompt \<noteq> [] then ''ADDITIONAL DIRECTION: '' @ custom_prompt else ''''),
        '''',
        ''Each variant should use a different creative angle and be useful for A/B testing.'']"

definition compose_payload ::
  "brand_guide \<Rightarrow> compliance_rule list \<Rightarrow> product \<Rightarrow> channel \<Rightarrow> string \<Rightarrow> string \<Rightarrow> int
     \<Rightarrow> string \<Rightarrow> string \<Rightarrow> payload" where
  "compose_payload brand category_rules product channel tone season num_variants custom_prompt model =
     \<lparr>pl_model = model, pl_max_tokens = 1200, pl_response_format = ''json_object'',
      pl_messages =
        [(''system'', system_prompt product brand category_rules),
         (''user'', user_prompt product channel tone season num_variants custom_prompt)]\<rparr>"

text \<open>
  The first part of \<^verbatim>\<open>generate_for_channel\<close>, up to the request body:
  \<^verbatim>\<open>BRAND_STYLE_GUIDES[product["brand"]]\<close> raises \<^verbatim>\<open>KeyError\<close> for an unknown brand,
  \<^verbatim>\<open>COMPLIANCE_RULES.get(product["category"], [])\<close> gives no rules for an unknown
  category.
\<close>

definition build_payload ::
  "product \<Rightarrow> channel \<Rightarrow> string \<Rightarrow> string \<Rightarrow> int \<Rightarrow> string \<Rightarrow> string \<Rightarrow> error + payload" where
  "build_payload product channel tone season num_variants custom_prompt model =
     (case map_of BRAND_STYLE_GUIDES (p_brand product) of
        None \<Rightarrow> Inl (KeyError (p_brand product))
      | Some brand \<Rightarrow>
          Inr (compose_payload brand (rules_for (p_category product)) product channel tone season
                 num_variants custom_prompt model))"

section \<open>The generation call\<close>

text \<open>
  What lies outside the program: the value of \<^verbatim>\<open>OPENAI_API_KEY\<close>; the exchange with
  the service, which for the request sent after \<open>n\<close> earlier ones returns the decoded
  reply or raises; \<^verbatim>\<open>json.loads\<close> on the reply's text (\<open>None\<close> when it raises); and
  the text that an f-string gives for a value that is not a string.
\<close>

record env =
  api_key :: string
  transport :: "nat \<Rightarrow> payload \<Rightarrow> error + json"
  loads :: "string \<Rightarrow> json option"
  py_str :: "json \<Rightarrow> string"

definition bind_result :: "error + 'a \<Rightarrow> ('a \<Rightarrow> error + 'b) \<Rightarrow> error + 'b" where
  "bind_result r f = (case r of Inl e \<Rightarrow> Inl e | Inr x \<Rightarrow> f x)"

text \<open>\<open>sent\<close> is the list of the requests sent so far in the run.\<close>

definition openai_chat_completion ::
  "env \<Rightarrow> payload list \<Rightarrow> payload \<Rightarrow> (error + json) \<times> payload list" where
  "openai_chat_completion e sent pl =
     (if strip (api_key e) = []
      then (Inl (RuntimeError
              ''OPENAI_API_KEY is missing. Add it in .env or your shell environment.''), sent)
      else (transport e (length sent) pl, sent @ [pl]))"

text \<open>\<^verbatim>\<open>x[key]\<close> for a string key and \<^verbatim>\<open>x[0]\<close>, on any decoded value.\<close>

fun subscript_key :: "json \<Rightarrow> string \<Rightarrow> error + json" where
  "subscript_key (JObj kvs) k = (case map_of kvs k of None \<Rightarrow> Inl (KeyError k) | Some v \<Rightarrow> Inr v)"
| "subscript_key _ k = Inl TypeError"

fun subscript_0 :: "json \<Rightarrow> error + json" where
  "subscript_0 (JArr []) = Inl IndexError"
| "subscript_0 (JArr (v # _)) = Inr v"
| "subscript_0 (JObj kvs) = Inl (KeyError ''0'')"
| "subscript_0 (JStr []) = Inl IndexError"
| "subscript_0 (JStr (c # _)) = Inr (JStr [c])"
| "subscript_0 _ = Inl TypeError"

text \<open>\<^verbatim>\<open>[item.get("text", "") for item in content if isinstance(item, dict)]\<close> and
  \<^verbatim>\<open>"".join\<close> of it, which raises on an element that is not a string.\<close>

fun fragment_texts :: "json list \<Rightarrow> json list" where
  "fragment_texts [] = []"
| "fragment_texts (JObj kvs # items) =
     (case map_of kvs ''text'' of None \<Rightarrow> JStr [] | Some v \<Rightarrow> v) # fragment_texts items"
| "fragment_texts (_ # items) = fragment_texts items"

fun join_strs :: "json list \<Rightarrow> error + string" where
  "join_strs [] = Inr []"
| "join_strs (JStr s # rest) = bind_result (join_strs rest) (\<lambda>t. Inr (s @ t))"
| "join_strs (_ # rest) = Inl TypeError"

fun content_text :: "json \<Rightarrow> error + string" where
  "content_text (JArr items) = join_strs (fragment_texts items)"
| "content_text (JStr s) = Inr s"
| "content_text _ = Inl TypeError"

text \<open>The last lines of \<^verbatim>\<open>generate_for_channel\<close>:
  \<^verbatim>\<open>parsed.get("variants", [])\<close> and the test that it is a list.\<close>

fun parse_variants :: "json \<Rightarrow> error + json list" where
  "parse_variants (JObj kvs) =
     (case map_of kvs ''variants'' of
        None \<Rightarrow> Inr []
      | Some (JArr vs) \<Rightarrow> Inr vs
      | Some _ \<Rightarrow>
          Inl (RuntimeError (''Model response did not include a valid '' @ [CHR 0x27]
                 @ ''variants'' @ [CHR 0x27] @ '' array.'')))"
| "parse_variants _ = Inl AttributeError"

definition read_reply :: "env \<Rightarrow> json \<Rightarrow> error + json list" where
  "read_reply e data =
     bind_result (subscript_key data ''choices'') (\<lambda>choices.
     bind_result (subscript_0 choices) (\<lambda>choice.
     bind_result (subscript_key choice ''message'') (\<lambda>message.
     bind_result (subscript_key message ''content'') (\<lambda>content.
     bind_result (content_text content) (\<lambda>text.
     bind_result (case loads e (strip_json_fence text) of
                    None \<Rightarrow> Inl JSONDecodeError
                  | Some parsed \<Rightarrow> Inr parsed)
       parse_variants)))))"

definition generate_for_channel ::
  "env \<Rightarrow> payload list \<Rightarrow> product \<Rightarrow> channel \<Rightarrow> string \<Rightarrow> string \<Rightarrow> int \<Rightarrow> string \<Rightarrow> string
     \<Rightarrow> (error + json list) \<times> payload list" where
  "generate_for_channel e sent product channel tone season num_variants custom_prompt model =
     (case build_payload product channel tone season num_variants custom_prompt model of
        Inl err \<Rightarrow> (Inl err, sent)
      | Inr pl \<Rightarrow>
          (case openai_chat_completion e sent pl of
             (Inl err, sent') \<Rightarrow> (Inl err, sent')
           | (Inr data, sent') \<Rightarrow> (read_reply e data, sent')))"

section \<open>The orchestrator\<close>

text \<open>
  The enrichment of one variant in \<^verbatim>\<open>main\<close>: \<^verbatim>\<open>v.get\<close> needs a dictionary; the three
  fields are formatted into the text that is evaluated; the two assignments write the
  issues and the verdict into the variant.
\<close>

definition get_field :: "(string \<times> json) list \<Rightarrow> string \<Rightarrow> json" where
  "get_field kvs k = (case map_of kvs k of None \<Rightarrow> JStr [] | Some x \<Rightarrow> x)"

definition format_value :: "env \<Rightarrow> json \<Rightarrow> string" where
  "format_value e x = (case x of JStr s \<Rightarrow> s | _ \<Rightarrow> py_str e x)"

definition variant_text :: "env \<Rightarrow> (string \<times> json) list \<Rightarrow> string" where
  "variant_text e kvs =
     format_value e (get_field kvs ''headline'') @ '' ''
     @ format_value e (get_field kvs ''body'') @ '' ''
     @ format_value e (get_field kvs ''cta'')"

definition issue_json :: "issue \<Rightarrow> json" where
  "issue_json i =
     JObj [(''rule'', JStr (issue_rule i)), (''severity'', JStr (issue_severity i)),
           (''matches'', JArr (map JStr (matches i)))]"

fun enrich_variant :: "env \<Rightarrow> string \<Rightarrow> json \<Rightarrow> error + json" where
  "enrich_variant e category (JObj kvs) =
     (let text = variant_text e kvs;
          issues = check_compliance text category
      in Inr (JObj (AList.update ''_compliance_score'' (JStr (get_compliance_score issues))
                     (AList.update ''_compliance_issues'' (JArr (map issue_json issues)) kvs))))"
| "enrich_variant e category _ = Inl AttributeError"

fun enrich_loop :: "env \<Rightarrow> string \<Rightarrow> json list \<Rightarrow> json list \<Rightarrow> error + json list" where
  "enrich_loop e category enriched [] = Inr enriched"
| "enrich_loop e category enriched (v # vs) =
     (case enrich_variant e category v of
        Inl err \<Rightarrow> Inl err
      | Inr v' \<Rightarrow> enrich_loop e category (enriched @ [v']) vs)"

record channel_result =
  channel_id :: string
  channel_name :: string
  variants :: "json list"

text \<open>The loop of \<^verbatim>\<open>main\<close> over the selected channels, with the results and the
  requests so far; the first exception ends it.\<close>

fun channel_loop ::
  "env \<Rightarrow> product \<Rightarrow> string \<Rightarrow> string \<Rightarrow> int \<Rightarrow> string \<Rightarrow> string
     \<Rightarrow> channel_result list \<Rightarrow> payload list \<Rightarrow> channel list
     \<Rightarrow> (error + channel_result list) \<times> payload list" where
  "channel_loop e product tone season n custom model results sent [] = (Inr results, sent)"
| "channel_loop e product tone season n custom model results sent (ch # rest) =
     (case generate_for_channel e sent product ch tone season n custom model of
        (Inl err, sent') \<Rightarrow> (Inl err, sent')
      | (Inr vs, sent') \<Rightarrow>
          (case enrich_loop e (p_category product) [] vs of
             Inl err \<Rightarrow> (Inl err, sent')
           | Inr enriched \<Rightarrow>
               channel_loop e product tone season n custom model
                 (results @ [\<lparr>channel_id = c_id ch, channel_name = c_name ch,
                               variants = enriched\<rparr>])
                 sent' rest))"

text \<open>\<^verbatim>\<open>channel_options\<close>: the channels by name, a later channel replacing an earlier
  one of the same name; and the list comprehension that looks the selected labels up.\<close>

definition channel_options :: "string \<Rightarrow> channel option" where
  "channel_options = map_of (rev (map (\<lambda>c. (c_name c, c)) CHANNELS))"

fun lookup_channels :: "string list \<Rightarrow> error + channel list" where
  "lookup_channels [] = Inr []"
| "lookup_channels (name # names) =
     (case channel_options name of
        None \<Rightarrow> Inl (KeyError name)
      | Some c \<Rightarrow> bind_result (lookup_channels names) (\<lambda>cs. Inr (c # cs)))"

text \<open>
  What pressing the button does: with no channel selected, the error message and nothing
  else; otherwise the loop inside \<^verbatim>\<open>try\<close>, whose exception is shown as an error while
  \<^verbatim>\<open>st.session_state.results\<close> keeps its old value, and whose result replaces it.  A
  label that is no channel name raises outside the \<^verbatim>\<open>try\<close>.
\<close>

datatype outcome =
    Rejected string
  | Crashed error
  | Failed error
  | Completed "channel_result list"

record run =
  run_outcome :: outcome
  run_requests :: "payload list"
  session_results :: "channel_result list"

definition generate_clicked ::
  "env \<Rightarrow> channel_result list \<Rightarrow> product \<Rightarrow> string list \<Rightarrow> string \<Rightarrow> string \<Rightarrow> int \<Rightarrow> string
     \<Rightarrow> string \<Rightarrow> run" where
  "generate_clicked e session selected_product selected_channel_labels campaign_tone
       target_season num_variants custom_prompt model =
     (if selected_channel_labels = []
      then \<lparr>run_outcome = Rejected ''Select at least one channel.'', run_requests = [],
             session_results = session\<rparr>
      else
        (case lookup_channels selected_channel_labels of
           Inl err \<Rightarrow> \<lparr>run_outcome = Crashed err, run_requests = [], session_results = session\<rparr>
         | Inr selected_channels \<Rightarrow>
             (case channel_loop e selected_product campaign_tone target_season num_variants
                     custom_prompt model [] [] selected_channels of
                (Inl err, sent) \<Rightarrow>
                  \<lparr>run_outcome = Failed err, run_requests = sent, session_results = session\<rparr>
              | (Inr results, sent) \<Rightarrow>
                  \<lparr>run_outcome = Completed results, run_requests = sent,
                    session_results = results\<rparr>)))"

section \<open>Example inputs\<close>

text \<open>The reply of the service that carries a given content text; and an environment
  whose service always answers with one content text, and whose parser reads that text
  as a given value, used to run the program on concrete inputs.\<close>

definition chat_reply :: "string \<Rightarrow> json" where
  "chat_reply content =
     JObj [(''choices'',
            JArr [JObj [(''message'',
                         JObj [(''role'', JStr ''assistant''), (''content'', JStr content)])]])]"

definition example_env :: "string \<Rightarrow> json \<Rightarrow> env" where
  "example_env content parsed =
     \<lparr>api_key = ''sk-test'',
      transport = (\<lambda>n pl. Inr (chat_reply content)),
      loads = (\<lambda>s. if s = strip_json_fence content then Some parsed else None),
      py_str = (\<lambda>x. [])\<rparr>"

definition example_content :: string where
  \<open>example_content =
     ''```json {"variants": [{"headline": "Cure it", "body": "now", "cta": "Buy"}]}```''\<close>

definition example_parsed :: json where
  "example_parsed =
     JObj [(''variants'',
            JArr [JObj [(''headline'', JStr ''Cure it''), (''body'', JStr ''now''),
                        (''cta'', JStr ''Buy'')]])]"

section \<open>Properties of the matcher and of the evaluation loop\<close>

lemma check_loop_eq:
  "check_loop acc rs text =
     acc @ map (\<lambda>r. \<lparr>issue_rule = rule r, issue_severity = severity r,
                        matches = sorted_list_of_set (set (findall (regex r) text))\<rparr>)
               (filter (\<lambda>r. findall (regex r) text \<noteq> []) rs)"
  by (induction rs arbitrary: acc) (simp_all add: Let_def)

lemma match_atoms_prefix: "m \<in> set (match_atoms alt s) \<Longrightarrow> \<exists>post. s = m @ post"
  by (induction alt s arbitrary: m rule: match_atoms.induct) (auto split: if_splits)

lemma last_opt_append: "last_opt p (xs @ ys) = last_opt (last_opt p xs) ys"
  by (simp add: last_opt_def)

lemma find_Some_mem: "find P xs = Some x \<Longrightarrow> P x \<and> x \<in> set xs"
  by (induction xs) (auto split: if_splits)

lemma match_here_sound:
  assumes "match_here re ma prev s = Some m"
  shows "\<exists>post. s = m @ post \<and> boundary prev (head_opt (m @ post))
           \<and> boundary (last_opt prev m) (head_opt post)
           \<and> (\<exists>alt \<in> set re. m \<in> set (match_atoms alt (m @ post)))"
proof -
  from assms have b: "boundary prev (head_opt s)"
    by (simp add: match_here_def split: if_splits)
  from assms have mem: "m \<in> set (concat (map (\<lambda>alt. match_atoms alt s) re))"
    and e: "boundary (last_opt prev m) (head_opt (drop (length m) s))"
    by (auto simp: match_here_def split: if_splits dest!: find_Some_mem)
  from mem obtain alt where alt: "alt \<in> set re" "m \<in> set (match_atoms alt s)"
    by auto
  then obtain post where post: "s = m @ post"
    using match_atoms_prefix by blast
  from post e have e': "boundary (last_opt prev m) (head_opt post)" by simp
  from post b have b': "boundary prev (head_opt (m @ post))" by simp
  from post alt have a': "\<exists>alt \<in> set re. m \<in> set (match_atoms alt (m @ post))" by auto
  show ?thesis
    by (rule exI[of _ post]) (intro conjI post e' b' a')
qed

lemma search_sound:
  "search re ma prev s = Some (k, m) \<Longrightarrow>
     \<exists>pre post. s = pre @ m @ post \<and> length pre = k
        \<and> boundary (last_opt prev pre) (head_opt (m @ post))
        \<and> boundary (last_opt prev (pre @ m)) (head_opt post)
        \<and> (\<exists>alt \<in> set re. m \<in> set (match_atoms alt (m @ post)))"
proof (induction s arbitrary: ma prev k)
  case Nil
  then have h: "match_here re ma prev [] = Some m" and k: "k = 0" by auto
  from match_here_sound[OF h] obtain post where
    p: "[] = m @ post" "boundary prev (head_opt (m @ post))"
       "boundary (last_opt prev m) (head_opt post)"
       "\<exists>alt \<in> set re. m \<in> set (match_atoms alt (m @ post))"
    by blast
  have "last_opt prev [] = prev" by (simp add: last_opt_def)
  with p k show ?case
    by (intro exI[of _ "[]"] exI[of _ post]) simp
next
  case (Cons c cs)
  show ?case
  proof (cases "match_here re ma prev (c # cs)")
    case None
    with Cons.prems obtain k' where s: "search re False (Some c) cs = Some (k', m)" and k: "k = Suc k'"
      by auto
    from Cons.IH[OF s] obtain pre post where
      p: "cs = pre @ m @ post" "length pre = k'"
         "boundary (last_opt (Some c) pre) (head_opt (m @ post))"
         "boundary (last_opt (Some c) (pre @ m)) (head_opt post)"
         "\<exists>alt \<in> set re. m \<in> set (match_atoms alt (m @ post))"
      by blast
    have "last_opt prev (c # pre) = last_opt (Some c) pre"
      "last_opt prev ((c # pre) @ m) = last_opt (Some c) (pre @ m)"
      by (auto simp: last_opt_def)
    with p k show ?thesis
      by (intro exI[of _ "c # pre"] exI[of _ post]) simp
  next
    case (Some m')
    with Cons.prems have eq: "m' = m" "k = 0" by auto
    from match_here_sound[OF Some] eq obtain post where
      p: "c # cs = m @ post" "boundary prev (head_opt (m @ post))"
         "boundary (last_opt prev m) (head_opt post)"
         "\<exists>alt \<in> set re. m \<in> set (match_atoms alt (m @ post))"
      by blast
    have "last_opt prev [] = prev" by (simp add: last_opt_def)
    with p eq show ?thesis
      by (intro exI[of _ "[]"] exI[of _ post]) simp
  qed
qed

lemma findall_from_sound:
  "m \<in> set (findall_from re ma prev s) \<Longrightarrow>
     \<exists>pre post. s = pre @ m @ post
        \<and> boundary (last_opt prev pre) (head_opt (m @ post))
        \<and> boundary (last_opt prev (pre @ m)) (head_opt post)
        \<and> (\<exists>alt \<in> set re. m \<in> set (match_atoms alt (m @ post)))"
proof (induction re ma prev s rule: findall_from.induct)
  case (1 re ma prev s)
  show ?case
  proof (cases "search re ma prev s")
    case None
    with "1.prems" show ?thesis by (simp add: findall_from.simps[of re ma prev s])
  next
    case (Some km)
    obtain k m0 where km: "km = (k, m0)" by (cases km)
    let ?n = "k + length m0"
    from "1.prems" Some km have
      "m = m0 \<or> m \<in> set (findall_from re (m0 = []) (last_opt prev (take ?n s)) (drop ?n s))"
      by (simp add: findall_from.simps[of re ma prev s])
    then show ?thesis
    proof
      assume "m = m0"
      with Some km search_sound[of re ma prev s k m0] show ?thesis by blast
    next
      assume "m \<in> set (findall_from re (m0 = []) (last_opt prev (take ?n s)) (drop ?n s))"
      from "1.IH"[OF Some km[symmetric] this] obtain pre post where
        p: "drop ?n s = pre @ m @ post"
           "boundary (last_opt (last_opt prev (take ?n s)) pre) (head_opt (m @ post))"
           "boundary (last_opt (last_opt prev (take ?n s)) (pre @ m)) (head_opt post)"
           "\<exists>alt \<in> set re. m \<in> set (match_atoms alt (m @ post))"
        by blast
      have "s = (take ?n s @ pre) @ m @ post"
        using p(1) append_take_drop_id[of ?n s] by simp
      moreover have "last_opt prev (take ?n s @ pre) = last_opt (last_opt prev (take ?n s)) pre"
        "last_opt prev ((take ?n s @ pre) @ m) = last_opt (last_opt prev (take ?n s)) (pre @ m)"
        by (simp_all add: last_opt_append)
      ultimately show ?thesis using p(2,3,4)
        by (intro exI[of _ "take ?n s @ pre"] exI[of _ post]) simp
    qed
  qed
qed

lemma is_word_lower: "is_word (lower c) = is_word c"
  by (auto simp: is_word_def lower_def Let_def)

lemma match_atoms_lit:
  "m \<in> set (match_atoms (lit w) s) \<Longrightarrow> map lower m = map lower w"
proof (induction w arbitrary: m s)
  case Nil
  then show ?case by (simp add: lit_def)
next
  case (Cons c w)
  then show ?case
    by (cases s) (auto simp: lit_def ci_eq_def split: if_splits)
qed

lemma rules_for_Skincare:
  "rules_for ''Skincare'' =
    [\<lparr>rule = ''No disease treatment claims'', severity = ''critical'',
        regex = [lit ''cure'', lit ''treat'', lit ''heal'', lit ''remedy'']\<rparr>,
     \<lparr>rule = ''No guaranteed results claims'', severity = ''critical'',
        regex = [lit ''guaranteed'', lit ''100%'', lit ''always works'', lit ''permanent'']\<rparr>,
     \<lparr>rule = ''Must include '' @ [CHR 0x27] @ ''results may vary'' @ [CHR 0x27] @ '' for efficacy claims'',
        severity = ''warning'',
        regex = [lit ''clinically proven'', lit ''dermatologist tested'']\<rparr>,
     \<lparr>rule = ''No comparative superiority without evidence'', severity = ''warning'',
        regex = [lit ''best'', lit ''#1'', lit ''number one'', lit ''superior to'']\<rparr>,
     \<lparr>rule = ''FDA disclaimer required for structure/function claims'', severity = ''info'',
        regex = [lit ''supports'', lit ''promotes'', lit ''helps maintain'']\<rparr>]"
  by (simp add: rules_for_def COMPLIANCE_RULES_def build_rules_def raw_rules_def)

lemma lower_words:
  "map lower ''cure'' = ''cure''" "map lower ''treat'' = ''treat''"
  "map lower ''heal'' = ''heal''" "map lower ''remedy'' = ''remedy''"
  by (simp_all add: lower_def)


lemma standalone_occurrence:
  assumes m: "m \<in> set (findall re text)"
    and words: "\<And>alt. alt \<in> set re \<Longrightarrow> \<exists>w. alt = lit w \<and> w \<noteq> [] \<and> is_word (hd w) \<and> is_word (last w)"
  shows "\<exists>pre post. text = pre @ m @ post
           \<and> (\<exists>w. lit w \<in> set re \<and> map lower m = map lower w)
           \<and> (pre = [] \<or> \<not> is_word (last pre))
           \<and> (post = [] \<or> \<not> is_word (hd post))"
proof -
  from m have "m \<in> set (findall_from re False None text)"
    by (simp add: findall_def)
  from findall_from_sound[OF this] obtain pre post where
    p: "text = pre @ m @ post"
       "boundary (last_opt None pre) (head_opt (m @ post))"
       "boundary (last_opt None (pre @ m)) (head_opt post)"
       "\<exists>alt \<in> set re. m \<in> set (match_atoms alt (m @ post))"
    by blast
  from p(4) obtain alt where alt: "alt \<in> set re" "m \<in> set (match_atoms alt (m @ post))"
    by blast
  from words[OF alt(1)] obtain w where
    w: "alt = lit w" "w \<noteq> []" "is_word (hd w)" "is_word (last w)"
    by blast
  from alt(2) w(1) have eq: "map lower m = map lower w"
    by (simp add: match_atoms_lit)
  from eq w(2) have ne: "m \<noteq> []" by auto
  from eq ne w(2) have "lower (hd m) = lower (hd w)" "lower (last m) = lower (last w)"
    by (metis hd_map map_is_Nil_conv, metis last_map map_is_Nil_conv)
  with w(3,4) have hw: "is_word (hd m)" and lw: "is_word (last m)"
    by (metis is_word_lower)+
  from p(2) ne hw have a: "pre = [] \<or> \<not> is_word (last pre)"
    by (cases m) (auto simp: boundary_def last_opt_def head_opt_def split: if_splits)
  from p(3) ne lw have b: "post = [] \<or> \<not> is_word (hd post)"
    by (cases post) (auto simp: boundary_def last_opt_def head_opt_def split: if_splits)
  from alt(1) w(1) eq have c: "\<exists>w. lit w \<in> set re \<and> map lower m = map lower w"
    by blast
  show ?thesis
    by (intro exI[of _ pre] exI[of _ post] conjI p(1) a b c)
qed



lemma cure_rule_words:
  assumes "alt \<in> set [lit ''cure'', lit ''treat'', lit ''heal'', lit ''remedy'']"
  shows "\<exists>w. alt = lit w \<and> w \<noteq> [] \<and> is_word (hd w) \<and> is_word (last w)"
proof -
  have c: "is_word CHR ''c''" and e: "is_word CHR ''e''" and t: "is_word CHR ''t''"
    and h: "is_word CHR ''h''" and l: "is_word CHR ''l''" and r: "is_word CHR ''r''"
    and y: "is_word CHR ''y''"
    by (simp_all add: is_word_def)
  from assms consider "alt = lit ''cure''" | "alt = lit ''treat''" | "alt = lit ''heal''"
    | "alt = lit ''remedy''"
    by auto
  then show ?thesis
  proof cases
    case 1 with c e show ?thesis by (intro exI[of _ "''cure''"]) simp
  next
    case 2 with t show ?thesis by (intro exI[of _ "''treat''"]) simp
  next
    case 3 with h l show ?thesis by (intro exI[of _ "''heal''"]) simp
  next
    case 4 with r y show ?thesis by (intro exI[of _ "''remedy''"]) simp
  qed
qed

lemma lit_inj: "lit w = lit w' \<Longrightarrow> w = w'"
  by (simp add: lit_def inj_on_def)


lemma cure_rule_standalone:
  assumes "m \<in> set (findall [lit ''cure'', lit ''treat'', lit ''heal'', lit ''remedy''] text)"
  shows "\<exists>pre post. text = pre @ m @ post
           \<and> map lower m \<in> {''cure'', ''treat'', ''heal'', ''remedy''}
           \<and> (pre = [] \<or> \<not> is_word (last pre))
           \<and> (post = [] \<or> \<not> is_word (hd post))"
proof -
  from standalone_occurrence[OF assms cure_rule_words] obtain pre post w where
    p: "text = pre @ m @ post" "lit w \<in> set [lit ''cure'', lit ''treat'', lit ''heal'', lit ''remedy'']"
       "map lower m = map lower w"
       "pre = [] \<or> \<not> is_word (last pre)" "post = [] \<or> \<not> is_word (hd post)"
    by blast
  from p(2) consider "lit w = lit ''cure''" | "lit w = lit ''treat''" | "lit w = lit ''heal''"
    | "lit w = lit ''remedy''"
    by auto
  then have "map lower w \<in> {''cure'', ''treat'', ''heal'', ''remedy''}"
  proof cases
    case 1 then have "w = ''cure''" by (rule lit_inj)
    then show ?thesis using lower_words(1) by simp
  next
    case 2 then have "w = ''treat''" by (rule lit_inj)
    then show ?thesis using lower_words(2) by simp
  next
    case 3 then have "w = ''heal''" by (rule lit_inj)
    then show ?thesis using lower_words(3) by simp
  next
    case 4 then have "w = ''remedy''" by (rule lit_inj)
    then show ?thesis using lower_words(4) by simp
  qed
  with p(3) have q: "map lower m \<in> {''cure'', ''treat'', ''heal'', ''remedy''}"
    by simp
  show ?thesis
    by (intro exI[of _ pre] exI[of _ post] conjI p(1) q p(4) p(5))
qed

lemma no_match_no_issue:
  assumes "\<forall>r \<in> set (rules_for category). findall (regex r) text = []"
  shows "check_compliance text category = []"
proof -
  from assms have "filter (\<lambda>r. findall (regex r) text \<noteq> []) (rules_for category) = []"
    by (simp add: filter_empty_conv)
  then show ?thesis
    by (simp add: check_compliance_def check_loop_eq)
qed

lemma check_compliance_eq:
  "check_compliance text category =
     map (\<lambda>r. \<lparr>issue_rule = rule r, issue_severity = severity r,
                  matches = sorted_list_of_set (set (findall (regex r) text))\<rparr>)
         (filter (\<lambda>r. findall (regex r) text \<noteq> []) (rules_for category))"
  by (simp add: check_compliance_def check_loop_eq)

lemma issue_from_rule:
  assumes "i \<in> set (check_compliance text category)"
  shows "\<exists>r \<in> set (rules_for category). findall (regex r) text \<noteq> []
           \<and> issue_rule i = rule r \<and> issue_severity i = severity r
           \<and> matches i = sorted_list_of_set (set (findall (regex r) text))"
  using assms unfolding check_compliance_eq by auto

lemma skincare_rule_by_name:
  assumes "r \<in> set (rules_for ''Skincare'')" and "rule r = ''No disease treatment claims''"
  shows "regex r = [lit ''cure'', lit ''treat'', lit ''heal'', lit ''remedy'']"
  using assms unfolding rules_for_Skincare by auto

section \<open>Properties of the orchestrator\<close>

lemma channel_options_name: "channel_options l = Some c \<Longrightarrow> c_name c = l"
  unfolding channel_options_def by (auto dest!: map_of_SomeD)

lemma lookup_channels_names:
  "lookup_channels labels = Inr chs \<Longrightarrow>
     map c_name chs = labels \<and> map (\<lambda>c. Some c) chs = map channel_options labels"
proof (induction labels arbitrary: chs)
  case Nil
  then show ?case by simp
next
  case (Cons l ls)
  from Cons.prems obtain c cs where
    c: "channel_options l = Some c" and cs: "lookup_channels ls = Inr cs" and chs: "chs = c # cs"
    by (auto simp: bind_result_def split: option.splits sum.splits)
  from Cons.IH[OF cs] c chs show ?case
    by (simp add: channel_options_name)
qed

lemma enrich_loop_map:
  "enrich_loop e category acc vs = Inr enriched \<Longrightarrow>
     \<exists>new. enriched = acc @ new \<and> map Inr new = map (enrich_variant e category) vs"
proof (induction vs arbitrary: acc)
  case Nil
  then show ?case by simp
next
  case (Cons v vs)
  from Cons.prems obtain v' where v': "enrich_variant e category v = Inr v'"
    and rest: "enrich_loop e category (acc @ [v']) vs = Inr enriched"
    by (auto split: sum.splits)
  from Cons.IH[OF rest] obtain new where
    "enriched = (acc @ [v']) @ new" "map Inr new = map (enrich_variant e category) vs"
    by blast
  with v' show ?case
    by (intro exI[of _ "v' # new"]) simp
qed

lemma channel_loop_order:
  "channel_loop e product tone season n custom model results sent chs = (Inr rs, sent') \<Longrightarrow>
     map (\<lambda>r. (channel_id r, channel_name r)) rs
       = map (\<lambda>r. (channel_id r, channel_name r)) results @ map (\<lambda>c. (c_id c, c_name c)) chs
     \<and> length sent' = length sent + length chs"
proof (induction chs arbitrary: results sent)
  case Nil
  then show ?case by simp
next
  case (Cons ch rest)
  from Cons.prems obtain vs s1 enriched where
    g: "generate_for_channel e sent product ch tone season n custom model = (Inr vs, s1)"
    and en: "enrich_loop e (p_category product) [] vs = Inr enriched"
    and r: "channel_loop e product tone season n custom model
              (results @ [\<lparr>channel_id = c_id ch, channel_name = c_name ch, variants = enriched\<rparr>])
              s1 rest = (Inr rs, sent')"
    by (auto split: prod.splits sum.splits)
  from g have "length s1 = Suc (length sent)"
    by (auto simp: generate_for_channel_def openai_chat_completion_def
             split: sum.splits if_splits prod.splits)
  with Cons.IH[OF r] show ?case by simp
qed

lemma generate_for_channel_reply:
  assumes "strip (api_key e) \<noteq> []
        \<and> build_payload product ch tone season n custom model = Inr pl
        \<and> transport e (length sent) pl = Inr (chat_reply content)
        \<and> loads e (strip_json_fence content) = Some parsed"
  shows "generate_for_channel e sent product ch tone season n custom model
          = (parse_variants parsed, sent @ [pl])"
  using assms
  by (simp add: generate_for_channel_def openai_chat_completion_def read_reply_def
        chat_reply_def bind_result_def)

lemma channel_loop_error:
  "generate_for_channel e sent product ch tone season n custom model = (Inl err, sent') \<Longrightarrow>
   channel_loop e product tone season n custom model results sent (ch # rest) = (Inl err, sent')"
  by simp

lemma channel_loop_empty:
  "generate_for_channel e sent product ch tone season n custom model = (Inr [], sent') \<Longrightarrow>
   channel_loop e product tone season n custom model results sent (ch # rest)
     = channel_loop e product tone season n custom model
         (results @ [\<lparr>channel_id = c_id ch, channel_name = c_name ch, variants = []\<rparr>])
         sent' rest"
  by simp

lemma failed_keeps_session:
  "run_outcome (generate_clicked e session product labels tone season n custom model) = Failed err
   \<Longrightarrow> session_results (generate_clicked e session product labels tone season n custom model)
        = session"
  by (auto simp: generate_clicked_def split: if_splits sum.splits prod.splits)

lemma rules_for_unknown: "map_of COMPLIANCE_RULES category = None \<Longrightarrow> rules_for category = []"
  by (simp add: rules_for_def)

lemma rules_text_Nil: "rules_text [] = []"
  by (simp add: rules_text_def)

lemma update_absent: "k \<notin> fst ` set al \<Longrightarrow> AList.update k v al = al @ [(k, v)]"
  by (induction al) auto

lemma update_filter_out:
  "k \<in> K \<Longrightarrow> filter (\<lambda>p. fst p \<notin> K) (AList.update k v al) = filter (\<lambda>p. fst p \<notin> K) al"
  by (induction al) auto

lemma enrich_variant_object: "\<exists>v'. enrich_variant e category (JObj kvs) = Inr v'"
  by (simp add: Let_def)

lemma enrich_loop_total:
  "\<forall>v \<in> set vs. \<exists>kvs. v = JObj kvs \<Longrightarrow> \<exists>enriched. enrich_loop e category acc vs = Inr enriched"
proof (induction vs arbitrary: acc)
  case Nil
  then show ?case by simp
next
  case (Cons v vs)
  then obtain kvs where v: "v = JObj kvs" by auto
  from enrich_variant_object[of e category kvs] obtain v' where
    v': "enrich_variant e category (JObj kvs) = Inr v'" by blast
  from Cons.prems have "\<forall>v \<in> set vs. \<exists>kvs. v = JObj kvs" by simp
  from Cons.IH[OF this, of "acc @ [v']"] v v' show ?case by simp
qed

lemma enrich_variant_error: "enrich_variant e category v = Inl err \<Longrightarrow> err = AttributeError"
  by (cases v) (simp_all add: Let_def)

lemma enrich_loop_abort:
  "\<exists>v \<in> set vs. \<forall>ys. v \<noteq> JObj ys \<Longrightarrow> enrich_loop e category acc vs = Inl AttributeError"
proof (induction vs arbitrary: acc)
  case Nil
  then show ?case by simp
next
  case (Cons v vs)
  show ?case
  proof (cases "enrich_variant e category v")
    case (Inl err)
    then show ?thesis by (simp add: enrich_variant_error)
  next
    case (Inr v')
    then obtain kvs where "v = JObj kvs" by (cases v) simp_all
    with Cons.prems have "\<exists>v \<in> set vs. \<forall>ys. v \<noteq> JObj ys" by simp
    from Cons.IH[OF this, of "acc @ [v']"] Inr show ?thesis by simp
  qed
qed

lemma channel_loop_record:
  assumes "generate_for_channel e sent product ch tone season n custom model = (Inr vs, sent')
           \<and> enrich_loop e (p_category product) [] vs = Inr enriched"
  shows "channel_loop e product tone season n custom model results sent (ch # rest)
     = channel_loop e product tone season n custom model
         (results @ [\<lparr>channel_id = c_id ch, channel_name = c_name ch, variants = enriched\<rparr>])
         sent' rest"
  using assms by simp

lemma channel_loop_abort:
  assumes "generate_for_channel e sent product ch tone season n custom model = (Inr vs, sent')
           \<and> (\<exists>v \<in> set vs. \<forall>ys. v \<noteq> JObj ys)"
  shows "channel_loop e product tone season n custom model results sent (ch # rest)
     = (Inl AttributeError, sent')"
  using assms by (simp add: enrich_loop_abort)

lemma generate_clicked_failed:
  assumes "labels \<noteq> [] \<and> lookup_channels labels = Inr chs
           \<and> channel_loop e product tone season n custom model [] [] chs = (Inl err, sent')"
  shows "generate_clicked e session product labels tone season n custom model
     = \<lparr>run_outcome = Failed err, run_requests = sent', session_results = session\<rparr>"
  using assms by (simp add: generate_clicked_def)

lemma generate_clicked_completed:
  assumes "labels \<noteq> [] \<and> lookup_channels labels = Inr chs
           \<and> channel_loop e product tone season n custom model [] [] chs = (Inr results, sent')"
  shows "generate_clicked e session product labels tone season n custom model
     = \<lparr>run_outcome = Completed results, run_requests = sent', session_results = results\<rparr>"
  using assms by (simp add: generate_clicked_def)

lemma enrichment_core:
  "(\<exists>kvs'. enrich_variant e category (JObj kvs) = Inr (JObj kvs')
      \<and> map_of kvs' ''_compliance_issues''
          = Some (JArr (map issue_json (check_compliance (variant_text e kvs) category)))
      \<and> map_of kvs' ''_compliance_score''
          = Some (JStr (get_compliance_score (check_compliance (variant_text e kvs) category)))
      \<and> (\<forall>k. k \<noteq> ''_compliance_issues'' \<and> k \<noteq> ''_compliance_score'' \<longrightarrow>
            map_of kvs' k = map_of kvs k)
      \<and> filter (\<lambda>p. fst p \<notin> {''_compliance_issues'', ''_compliance_score''}) kvs'
          = filter (\<lambda>p. fst p \<notin> {''_compliance_issues'', ''_compliance_score''}) kvs
      \<and> (''_compliance_issues'' \<notin> fst ` set kvs \<and> ''_compliance_score'' \<notin> fst ` set kvs \<longrightarrow>
            kvs' = kvs @
              [(''_compliance_issues'',
                JArr (map issue_json (check_compliance (variant_text e kvs) category))),
               (''_compliance_score'',
                JStr (get_compliance_score (check_compliance (variant_text e kvs) category)))]))
   \<and> (enrich_loop e category [] vs = Inr enriched \<longrightarrow>
        length enriched = length vs
        \<and> map Inr enriched = map (enrich_variant e category) vs)
   \<and> ((\<forall>ys. v \<noteq> JObj ys) \<longrightarrow> enrich_variant e category v = Inl AttributeError)"
proof (intro conjI impI)
  let ?is = "JArr (map issue_json (check_compliance (variant_text e kvs) category))"
  let ?sc = "JStr (get_compliance_score (check_compliance (variant_text e kvs) category))"
  let ?kvs' = "AList.update ''_compliance_score'' ?sc (AList.update ''_compliance_issues'' ?is kvs)"
  have r: "enrich_variant e category (JObj kvs) = Inr (JObj ?kvs')"
    by (simp add: Let_def)
  have a: "map_of ?kvs' ''_compliance_issues'' = Some ?is"
    by (simp add: update_conv')
  have b: "map_of ?kvs' ''_compliance_score'' = Some ?sc"
    by (simp add: update_conv')
  have c: "\<forall>k. k \<noteq> ''_compliance_issues'' \<and> k \<noteq> ''_compliance_score'' \<longrightarrow>
            map_of ?kvs' k = map_of kvs k"
    by (simp add: update_conv')
  have d: "filter (\<lambda>p. fst p \<notin> {''_compliance_issues'', ''_compliance_score''}) ?kvs'
          = filter (\<lambda>p. fst p \<notin> {''_compliance_issues'', ''_compliance_score''}) kvs"
    by (simp only: update_filter_out[of _ "{''_compliance_issues'', ''_compliance_score''}"]
          insertI1 insertI2)
  have f: "''_compliance_issues'' \<notin> fst ` set kvs \<and> ''_compliance_score'' \<notin> fst ` set kvs \<longrightarrow>
            ?kvs' = kvs @ [(''_compliance_issues'', ?is), (''_compliance_score'', ?sc)]"
  proof
    assume h: "''_compliance_issues'' \<notin> fst ` set kvs \<and> ''_compliance_score'' \<notin> fst ` set kvs"
    then have u1: "AList.update ''_compliance_issues'' ?is kvs = kvs @ [(''_compliance_issues'', ?is)]"
      by (simp add: update_absent)
    from h have "''_compliance_score'' \<notin> fst ` set (kvs @ [(''_compliance_issues'', ?is)])"
      by simp
    then have "AList.update ''_compliance_score'' ?sc (kvs @ [(''_compliance_issues'', ?is)])
        = (kvs @ [(''_compliance_issues'', ?is)]) @ [(''_compliance_score'', ?sc)]"
      by (rule update_absent)
    with u1 show "?kvs' = kvs @ [(''_compliance_issues'', ?is), (''_compliance_score'', ?sc)]"
      by simp
  qed
  show "\<exists>kvs'. enrich_variant e category (JObj kvs) = Inr (JObj kvs')
      \<and> map_of kvs' ''_compliance_issues'' = Some ?is
      \<and> map_of kvs' ''_compliance_score'' = Some ?sc
      \<and> (\<forall>k. k \<noteq> ''_compliance_issues'' \<and> k \<noteq> ''_compliance_score'' \<longrightarrow>
            map_of kvs' k = map_of kvs k)
      \<and> filter (\<lambda>p. fst p \<notin> {''_compliance_issues'', ''_compliance_score''}) kvs'
          = filter (\<lambda>p. fst p \<notin> {''_compliance_issues'', ''_compliance_score''}) kvs
      \<and> (''_compliance_issues'' \<notin> fst ` set kvs \<and> ''_compliance_score'' \<notin> fst ` set kvs \<longrightarrow>
            kvs' = kvs @ [(''_compliance_issues'', ?is), (''_compliance_score'', ?sc)])"
    by (rule exI[of _ ?kvs']) (intro conjI r a b c d f)
next
  assume "enrich_loop e category [] vs = Inr enriched"
  from enrich_loop_map[OF this] have m: "map Inr enriched = map (enrich_variant e category) vs"
    by simp
  then have "length (map Inr enriched :: (error + json) list)
      = length (map (enrich_variant e category) vs)"
    by simp
  then show "length enriched = length vs" by simp
  from m show "map Inr enriched = map (enrich_variant e category) vs" .
next
  assume "\<forall>ys. v \<noteq> JObj ys"
  then show "enrich_variant e category v = Inl AttributeError"
    by (cases v) simp_all
qed

section \<open>Evaluations on concrete texts\<close>

lemma eval_household:
  "check_compliance ''Our spray is 100% safe and kills 99% of germs.'' ''Household'' =
    [\<lparr>issue_rule = ''No absolute safety claims'', issue_severity = ''critical'',
        matches = [''100% safe'']\<rparr>,
     \<lparr>issue_rule = ''Efficacy claims need qualification'', issue_severity = ''warning'',
        matches = [''kills 99'']\<rparr>]"
  by code_simp

lemma eval_caution:
  "check_compliance ''Clinically proven: supports and promotes glow'' ''Skincare'' =
    [\<lparr>issue_rule = ''Must include '' @ [CHR 0x27] @ ''results may vary'' @ [CHR 0x27]
          @ '' for efficacy claims'',
        issue_severity = ''warning'', matches = [''Clinically proven'']\<rparr>,
     \<lparr>issue_rule = ''FDA disclaimer required for structure/function claims'',
        issue_severity = ''info'', matches = [''promotes'', ''supports'']\<rparr>]"
  by code_simp

lemma eval_minor:
  "check_compliance ''Supports healthy skin'' ''Skincare'' =
    [\<lparr>issue_rule = ''FDA disclaimer required for structure/function claims'',
        issue_severity = ''info'', matches = [''Supports'']\<rparr>]"
  by code_simp

lemma eval_curettage_rules:
  "\<forall>r \<in> set (rules_for ''Skincare''). findall (regex r) ''the curettage procedure'' = []"
  by code_simp


lemma eval_cure_heal_cure:
  "check_loop []
     [\<lparr>rule = ''r'', severity = ''critical'', regex = [lit ''cure'', lit ''heal'']\<rparr>]
     ''cure, heal, cure''
   = [\<lparr>issue_rule = ''r'', issue_severity = ''critical'', matches = [''cure'', ''heal'']\<rparr>]"
  by code_simp

lemma eval_findall_cure_heal_cure:
  "findall [lit ''cure'', lit ''heal''] ''cure, heal, cure'' = [''cure'', ''heal'', ''cure'']"
  by code_simp

lemma eval_skincare_cure_heal_cure:
  "check_compliance ''cure, heal, cure'' ''Skincare'' =
     [\<lparr>issue_rule = ''No disease treatment claims'', issue_severity = ''critical'',
         matches = [''cure'', ''heal'']\<rparr>]"
  by code_simp

lemma eval_cure_it:
  "check_compliance ''Cure it now Buy'' ''Skincare'' =
     [\<lparr>issue_rule = ''No disease treatment claims'', issue_severity = ''critical'',
         matches = [''Cure'']\<rparr>]"
  by code_simp

lemma eval_glow: "check_compliance ''Glow  '' ''Skincare'' = []"
  by code_simp

lemma strip_key: "strip ''sk-test'' = ''sk-test''"
  by (simp add: strip_def is_space_def)

lemma channel_options_email: "channel_options ''Email Campaign'' = Some (CHANNELS ! 2)"
  by (simp add: channel_options_def CHANNELS_def)

lemma channel_options_instagram: "channel_options ''Instagram Post'' = Some (CHANNELS ! 0)"
  by (simp add: channel_options_def CHANNELS_def)

lemma brand_pureglow: "map_of BRAND_STYLE_GUIDES ''PureGlow Naturals'' = Some (snd (hd BRAND_STYLE_GUIDES))"
  by (simp add: BRAND_STYLE_GUIDES_def)

lemma p1_fields: "p_brand (hd PRODUCT_DATABASE) = ''PureGlow Naturals''"
  "p_category (hd PRODUCT_DATABASE) = ''Skincare''"
  by (simp_all add: PRODUCT_DATABASE_def)

lemma channel_fields:
  "c_id (CHANNELS ! 2) = ''email''" "c_name (CHANNELS ! 2) = ''Email Campaign''"
  "c_id (CHANNELS ! 0) = ''instagram''" "c_name (CHANNELS ! 0) = ''Instagram Post''"
  by (simp_all add: CHANNELS_def)

lemmas run_eval =
  generate_clicked_def channel_options_email channel_options_instagram
  bind_result_def generate_for_channel_def build_payload_def brand_pureglow p1_fields
  channel_fields openai_chat_completion_def example_env_def strip_key read_reply_def
  chat_reply_def

lemma eval_example_run:
  "run_outcome (generate_clicked (example_env example_content example_parsed) []
      (hd PRODUCT_DATABASE) [''Email Campaign'', ''Instagram Post'']
      ''Professional'' ''General'' 2 [] ''gpt-4o-mini'')
   = Completed
      [\<lparr>channel_id = ''email'', channel_name = ''Email Campaign'',
         variants =
           [JObj [(''headline'', JStr ''Cure it''), (''body'', JStr ''now''), (''cta'', JStr ''Buy''),
                  (''_compliance_issues'',
                   JArr [JObj [(''rule'', JStr ''No disease treatment claims''),
                               (''severity'', JStr ''critical''),
                               (''matches'', JArr [JStr ''Cure''])]]),
                  (''_compliance_score'', JStr ''Needs Review'')]]\<rparr>,
       \<lparr>channel_id = ''instagram'', channel_name = ''Instagram Post'',
         variants =
           [JObj [(''headline'', JStr ''Cure it''), (''body'', JStr ''now''), (''cta'', JStr ''Buy''),
                  (''_compliance_issues'',
                   JArr [JObj [(''rule'', JStr ''No disease treatment claims''),
                               (''severity'', JStr ''critical''),
                               (''matches'', JArr [JStr ''Cure''])]]),
                  (''_compliance_score'', JStr ''Needs Review'')]]\<rparr>]"
  by (simp add: generate_clicked_def channel_options_email channel_options_instagram
        bind_result_def generate_for_channel_def build_payload_def brand_pureglow p1_fields
        channel_fields openai_chat_completion_def example_env_def strip_key read_reply_def
        chat_reply_def example_parsed_def variant_text_def get_field_def format_value_def
        eval_cure_it issue_json_def get_compliance_score_def Let_def)




lemma lookup_instagram: "lookup_channels [''Instagram Post''] = Inr [CHANNELS ! 0]"
  by (simp add: channel_options_instagram bind_result_def)

section \<open>Claims about the verdict and the evaluation\<close>

text \<open>
  C1.  The verdict follows the dominance order on the severities present in the issue
  list: an issue of severity \<^verbatim>\<open>critical\<close> gives \<^verbatim>\<open>Needs Review\<close>; otherwise an issue of
  severity \<^verbatim>\<open>warning\<close> gives \<^verbatim>\<open>Caution\<close>; otherwise an issue of severity \<^verbatim>\<open>info\<close>
  gives \<^verbatim>\<open>Minor Notes\<close>; the empty issue list gives \<^verbatim>\<open>Compliant\<close>, and a text in
  which no rule of its category matches is evaluated to the empty issue list and hence
  to \<^verbatim>\<open>Compliant\<close>.
\<close>

theorem verdict_dominance:
  "((\<exists>i \<in> set issues. issue_severity i = ''critical'') \<longrightarrow>
      get_compliance_score issues = ''Needs Review'')
   \<and> ((\<forall>i \<in> set issues. issue_severity i \<noteq> ''critical'')
        \<and> (\<exists>i \<in> set issues. issue_severity i = ''warning'') \<longrightarrow>
      get_compliance_score issues = ''Caution'')
   \<and> ((\<forall>i \<in> set issues. issue_severity i \<noteq> ''critical'' \<and> issue_severity i \<noteq> ''warning'')
        \<and> (\<exists>i \<in> set issues. issue_severity i = ''info'') \<longrightarrow>
      get_compliance_score issues = ''Minor Notes'')
   \<and> get_compliance_score [] = ''Compliant''
   \<and> ((\<forall>r \<in> set (rules_for category). findall (regex r) text = []) \<longrightarrow>
      check_compliance text category = []
      \<and> get_compliance_score (check_compliance text category) = ''Compliant'')"
proof -
  have crit: "(\<exists>i \<in> set issues. issue_severity i = ''critical'') \<longrightarrow>
      get_compliance_score issues = ''Needs Review''"
    by (auto simp: get_compliance_score_def Let_def image_iff)
  have warn: "(\<forall>i \<in> set issues. issue_severity i \<noteq> ''critical'')
        \<and> (\<exists>i \<in> set issues. issue_severity i = ''warning'') \<longrightarrow>
      get_compliance_score issues = ''Caution''"
    by (auto simp: get_compliance_score_def Let_def image_iff)
  have info: "(\<forall>i \<in> set issues. issue_severity i \<noteq> ''critical'' \<and> issue_severity i \<noteq> ''warning'')
        \<and> (\<exists>i \<in> set issues. issue_severity i = ''info'') \<longrightarrow>
      get_compliance_score issues = ''Minor Notes''"
    by (auto simp: get_compliance_score_def Let_def image_iff)
  have none: "get_compliance_score [] = ''Compliant''"
    by (simp add: get_compliance_score_def)
  have zero: "(\<forall>r \<in> set (rules_for category). findall (regex r) text = []) \<longrightarrow>
      check_compliance text category = []
      \<and> get_compliance_score (check_compliance text category) = ''Compliant''"
  proof
    assume "\<forall>r \<in> set (rules_for category). findall (regex r) text = []"
    then have "check_compliance text category = []"
      by (rule no_match_no_issue)
    with none show "check_compliance text category = []
      \<and> get_compliance_score (check_compliance text category) = ''Compliant''"
      by simp
  qed
  from crit warn info none zero show ?thesis by blast
qed

theorem verdict_dominance_witness:
  "get_compliance_score
      (check_compliance ''Our spray is 100% safe and kills 99% of germs.'' ''Household'')
     = ''Needs Review''
   \<and> get_compliance_score
      (check_compliance ''Clinically proven: supports and promotes glow'' ''Skincare'')
     = ''Caution''
   \<and> get_compliance_score (check_compliance ''Supports healthy skin'' ''Skincare'')
     = ''Minor Notes''
   \<and> check_compliance ''the curettage procedure'' ''Skincare'' = []
   \<and> get_compliance_score (check_compliance ''the curettage procedure'' ''Skincare'')
     = ''Compliant''"
proof -
  have c1: "get_compliance_score
      (check_compliance ''Our spray is 100% safe and kills 99% of germs.'' ''Household'')
     = ''Needs Review''"
    using verdict_dominance[of "check_compliance
      ''Our spray is 100% safe and kills 99% of germs.'' ''Household''"]
    unfolding eval_household by simp
  have c2: "get_compliance_score
      (check_compliance ''Clinically proven: supports and promotes glow'' ''Skincare'')
     = ''Caution''"
    using verdict_dominance[of "check_compliance
      ''Clinically proven: supports and promotes glow'' ''Skincare''"]
    unfolding eval_caution by simp
  have c3: "get_compliance_score (check_compliance ''Supports healthy skin'' ''Skincare'')
     = ''Minor Notes''"
    using verdict_dominance[of "check_compliance ''Supports healthy skin'' ''Skincare''"]
    unfolding eval_minor by simp
  have c4: "check_compliance ''the curettage procedure'' ''Skincare'' = []
      \<and> get_compliance_score (check_compliance ''the curettage procedure'' ''Skincare'')
        = ''Compliant''"
    by (rule verdict_dominance[THEN conjunct2, THEN conjunct2, THEN conjunct2,
          THEN conjunct2, THEN mp, OF eval_curettage_rules])
  show ?thesis
    by (intro conjI c1 c2 c3 conjunct1[OF c4] conjunct2[OF c4])
qed


text \<open>
  C5.  The matched terms of every emitted issue are sorted in the order of strings and
  free of duplicates, and they are exactly the texts that the pattern of the issue's rule
  matched.  For a rule matching \<^verbatim>\<open>cure|heal\<close> and a text with \<^verbatim>\<open>cure\<close> twice and
  \<^verbatim>\<open>heal\<close> once, the scan finds three matches and the issue carries
  \<^verbatim>\<open>["cure", "heal"]\<close>.
\<close>

theorem matched_terms_sorted_distinct:
  "(\<forall>i \<in> set (check_compliance text category).
       sorted (matches i) \<and> distinct (matches i)
       \<and> (\<exists>r \<in> set (rules_for category).
             issue_rule i = rule r \<and> set (matches i) = set (findall (regex r) text)))
   \<and> findall [lit ''cure'', lit ''heal''] ''cure, heal, cure'' = [''cure'', ''heal'', ''cure'']
   \<and> check_loop []
        [\<lparr>rule = ''r'', severity = ''critical'', regex = [lit ''cure'', lit ''heal'']\<rparr>]
        ''cure, heal, cure''
      = [\<lparr>issue_rule = ''r'', issue_severity = ''critical'', matches = [''cure'', ''heal'']\<rparr>]"
proof (intro conjI ballI)
  fix i
  assume "i \<in> set (check_compliance text category)"
  then obtain r where r: "r \<in> set (rules_for category)" "issue_rule i = rule r"
      "matches i = sorted_list_of_set (set (findall (regex r) text))"
    using issue_from_rule by blast
  from r(3) show "sorted (matches i)" by simp
  from r(3) show "distinct (matches i)" by simp
  from r show "\<exists>r \<in> set (rules_for category).
             issue_rule i = rule r \<and> set (matches i) = set (findall (regex r) text)"
    by auto
next
  show "findall [lit ''cure'', lit ''heal''] ''cure, heal, cure'' = [''cure'', ''heal'', ''cure'']"
    by (rule eval_findall_cure_heal_cure)
next
  show "check_loop []
        [\<lparr>rule = ''r'', severity = ''critical'', regex = [lit ''cure'', lit ''heal'']\<rparr>]
        ''cure, heal, cure''
      = [\<lparr>issue_rule = ''r'', issue_severity = ''critical'', matches = [''cure'', ''heal'']\<rparr>]"
    by (rule eval_cure_heal_cure)
qed

theorem matched_terms_sorted_distinct_witness:
  "sorted (matches (hd (check_compliance ''cure, heal, cure'' ''Skincare'')))
   \<and> distinct (matches (hd (check_compliance ''cure, heal, cure'' ''Skincare'')))
   \<and> matches (hd (check_compliance ''cure, heal, cure'' ''Skincare'')) = [''cure'', ''heal'']"
proof -
  have mem: "hd (check_compliance ''cure, heal, cure'' ''Skincare'')
      \<in> set (check_compliance ''cure, heal, cure'' ''Skincare'')"
    unfolding eval_skincare_cure_heal_cure by simp
  have val: "matches (hd (check_compliance ''cure, heal, cure'' ''Skincare'')) = [''cure'', ''heal'']"
    unfolding eval_skincare_cure_heal_cure by simp
  from matched_terms_sorted_distinct[of "''cure, heal, cure''" "''Skincare''",
      THEN conjunct1, rule_format, OF mem]
  have "sorted (matches (hd (check_compliance ''cure, heal, cure'' ''Skincare'')))"
    and "distinct (matches (hd (check_compliance ''cure, heal, cure'' ''Skincare'')))"
    by blast+
  with val show ?thesis by blast
qed

text \<open>
  C8.  Evaluation is deterministic: \<^verbatim>\<open>check_compliance\<close> reads its two arguments and
  the catalogue built once at start-up, and writes nothing, so it is a function of the
  text and the category.  Evaluating the same text against the same category twice gives
  the same issues, in the same order, with the same matched terms.
\<close>

theorem evaluation_deterministic:
  "(let first = check_compliance text category;
        second = check_compliance text category
    in first = second
       \<and> map issue_rule first = map issue_rule second
       \<and> map matches first = map matches second)"
  by (simp add: Let_def)

text \<open>
  C9.  The issues of an evaluation correspond, in order, to the rules of the category
  whose pattern matched: their names and severities are those of a subsequence of the
  rule list (so a rule contributes at most one issue, and declaration order is kept),
  every issue carries at least one matched term, and there are no more issues than rules.
\<close>

theorem issues_follow_rules:
  "(let fired = filter (\<lambda>r. findall (regex r) text \<noteq> []) (rules_for category);
        issues = check_compliance text category
    in subseq fired (rules_for category)
       \<and> map (\<lambda>i. (issue_rule i, issue_severity i)) issues = map (\<lambda>r. (rule r, severity r)) fired
       \<and> (\<forall>i \<in> set issues. matches i \<noteq> [])
       \<and> length issues \<le> length (rules_for category))"
proof -
  have a: "subseq (filter (\<lambda>r. findall (regex r) text \<noteq> []) (rules_for category))
      (rules_for category)"
    by simp
  have b: "map (\<lambda>i. (issue_rule i, issue_severity i)) (check_compliance text category)
      = map (\<lambda>r. (rule r, severity r))
          (filter (\<lambda>r. findall (regex r) text \<noteq> []) (rules_for category))"
    by (simp add: check_compliance_eq comp_def)
  have c: "\<forall>i \<in> set (check_compliance text category). matches i \<noteq> []"
  proof
    fix i
    assume "i \<in> set (check_compliance text category)"
    from issue_from_rule[OF this] obtain r :: compliance_rule
      where "findall (regex r) text \<noteq> []"
        "matches i = sorted_list_of_set (set (findall (regex r) text))"
      by auto
    then show "matches i \<noteq> []"
      by (simp add: sorted_list_of_set_eq_Nil_iff)
  qed
  have d: "length (check_compliance text category) \<le> length (rules_for category)"
    by (simp add: check_compliance_eq)
  from a b c d show ?thesis by (simp add: Let_def)
qed

theorem issues_follow_rules_witness:
  "map (\<lambda>i. (issue_rule i, issue_severity i))
       (check_compliance ''Our spray is 100% safe and kills 99% of germs.'' ''Household'')
     = [(''No absolute safety claims'', ''critical''),
        (''Efficacy claims need qualification'', ''warning'')]
   \<and> matches (hd (check_compliance ''Our spray is 100% safe and kills 99% of germs.''
        ''Household'')) \<noteq> []
   \<and> length (check_compliance ''Our spray is 100% safe and kills 99% of germs.'' ''Household'')
        \<le> length (rules_for ''Household'')"
proof -
  have mem: "hd (check_compliance ''Our spray is 100% safe and kills 99% of germs.'' ''Household'')
      \<in> set (check_compliance ''Our spray is 100% safe and kills 99% of germs.'' ''Household'')"
    unfolding eval_household by simp
  have val: "map (\<lambda>i. (issue_rule i, issue_severity i))
       (check_compliance ''Our spray is 100% safe and kills 99% of germs.'' ''Household'')
     = [(''No absolute safety claims'', ''critical''),
        (''Efficacy claims need qualification'', ''warning'')]"
    unfolding eval_household by simp
  from issues_follow_rules[of "''Our spray is 100% safe and kills 99% of germs.''" "''Household''"]
  have "\<forall>i \<in> set (check_compliance ''Our spray is 100% safe and kills 99% of germs.''
          ''Household''). matches i \<noteq> []"
    and "length (check_compliance ''Our spray is 100% safe and kills 99% of germs.'' ''Household'')
        \<le> length (rules_for ''Household'')"
    by (simp_all add: Let_def)
  with mem val show ?thesis by blast
qed

section \<open>Claims about the generation call and the orchestrator\<close>

text \<open>
  C2, as the code has it.  When the service answers a request with a content text, the
  call returns what the last lines of \<^verbatim>\<open>generate_for_channel\<close> make of the parsed
  text.  A reply whose \<^verbatim>\<open>variants\<close> field is present and not a list
  fails the call with \<^verbatim>\<open>RuntimeError\<close>, and a reply that is not a dictionary fails it
  with \<^verbatim>\<open>AttributeError\<close>; an error of the call ends the loop over the channels with
  no result recorded for the channel, and the stored results of the session stay as they
  were.  An absent \<^verbatim>\<open>variants\<close> field is read as the empty list and an empty list is
  accepted: the orchestrator then records a result with no variants for the channel and
  goes on.
\<close>

theorem variants_field_handling:
  "(map_of kvs ''variants'' = None \<longrightarrow> parse_variants (JObj kvs) = Inr [])
   \<and> (map_of kvs ''variants'' = Some (JArr vs) \<longrightarrow> parse_variants (JObj kvs) = Inr vs)
   \<and> (map_of kvs ''variants'' = Some x \<and> (\<forall>ys. x \<noteq> JArr ys) \<longrightarrow>
        parse_variants (JObj kvs)
          = Inl (RuntimeError (''Model response did not include a valid '' @ [CHR 0x27]
                   @ ''variants'' @ [CHR 0x27] @ '' array.'')))
   \<and> ((\<forall>ys. parsed \<noteq> JObj ys) \<longrightarrow> parse_variants parsed = Inl AttributeError)
   \<and> (strip (api_key e) \<noteq> []
        \<and> build_payload product ch tone season n custom model = Inr pl
        \<and> transport e (length sent) pl = Inr (chat_reply content)
        \<and> loads e (strip_json_fence content) = Some parsed \<longrightarrow>
        generate_for_channel e sent product ch tone season n custom model
          = (parse_variants parsed, sent @ [pl]))
   \<and> (generate_for_channel e sent product ch tone season n custom model = (Inl err, sent') \<longrightarrow>
        channel_loop e product tone season n custom model results sent (ch # rest)
          = (Inl err, sent'))
   \<and> (generate_for_channel e sent product ch tone season n custom model = (Inr [], sent') \<longrightarrow>
        channel_loop e product tone season n custom model results sent (ch # rest)
          = channel_loop e product tone season n custom model
              (results @ [\<lparr>channel_id = c_id ch, channel_name = c_name ch, variants = []\<rparr>])
              sent' rest)
   \<and> (run_outcome (generate_clicked e session product labels tone season n custom model)
          = Failed err \<longrightarrow>
        session_results (generate_clicked e session product labels tone season n custom model)
          = session)"
proof (intro conjI impI)
  assume "map_of kvs ''variants'' = None"
  then show "parse_variants (JObj kvs) = Inr []" by simp
next
  assume "map_of kvs ''variants'' = Some (JArr vs)"
  then show "parse_variants (JObj kvs) = Inr vs" by simp
next
  assume "map_of kvs ''variants'' = Some x \<and> (\<forall>ys. x \<noteq> JArr ys)"
  then show "parse_variants (JObj kvs)
          = Inl (RuntimeError (''Model response did not include a valid '' @ [CHR 0x27]
                   @ ''variants'' @ [CHR 0x27] @ '' array.''))"
    by (cases x) simp_all
next
  assume "\<forall>ys. parsed \<noteq> JObj ys"
  then show "parse_variants parsed = Inl AttributeError"
    by (cases parsed) simp_all
next
  assume "strip (api_key e) \<noteq> []
        \<and> build_payload product ch tone season n custom model = Inr pl
        \<and> transport e (length sent) pl = Inr (chat_reply content)
        \<and> loads e (strip_json_fence content) = Some parsed"
  then show "generate_for_channel e sent product ch tone season n custom model
          = (parse_variants parsed, sent @ [pl])"
    by (rule generate_for_channel_reply)
next
  assume "generate_for_channel e sent product ch tone season n custom model = (Inl err, sent')"
  then show "channel_loop e product tone season n custom model results sent (ch # rest)
          = (Inl err, sent')"
    by (rule channel_loop_error)
next
  assume "generate_for_channel e sent product ch tone season n custom model = (Inr [], sent')"
  then show "channel_loop e product tone season n custom model results sent (ch # rest)
          = channel_loop e product tone season n custom model
              (results @ [\<lparr>channel_id = c_id ch, channel_name = c_name ch, variants = []\<rparr>])
              sent' rest"
    by (rule channel_loop_empty)
next
  assume "run_outcome (generate_clicked e session product labels tone season n custom model)
          = Failed err"
  then show "session_results (generate_clicked e session product labels tone season n custom model)
          = session"
    by (rule failed_keeps_session)
qed

theorem variants_field_handling_witness:
  \<open>parse_variants (JObj []) = Inr []
   \<and> parse_variants (JObj [(''variants'', JArr [JNull])]) = Inr [JNull]
   \<and> parse_variants (JObj [(''variants'', JStr ''none'')])
       = Inl (RuntimeError (''Model response did not include a valid '' @ [CHR 0x27]
                @ ''variants'' @ [CHR 0x27] @ '' array.''))
   \<and> parse_variants (JArr []) = Inl AttributeError
   \<and> fst (channel_loop
         (example_env ''{"variants": "none"}'' (JObj [(''variants'', JStr ''none'')]))
         (hd PRODUCT_DATABASE) ''Professional'' ''General'' 2 [] ''gpt-4o-mini'' [] []
         [CHANNELS ! 0])
       = Inl (RuntimeError (''Model response did not include a valid '' @ [CHR 0x27]
                @ ''variants'' @ [CHR 0x27] @ '' array.''))
   \<and> fst (channel_loop (example_env ''{}'' (JObj []))
         (hd PRODUCT_DATABASE) ''Professional'' ''General'' 2 [] ''gpt-4o-mini'' [] []
         [CHANNELS ! 0])
       = Inr [\<lparr>channel_id = ''instagram'', channel_name = ''Instagram Post'', variants = []\<rparr>]
   \<and> session_results
        (generate_clicked
           (example_env ''{"variants": "none"}'' (JObj [(''variants'', JStr ''none'')]))
           [\<lparr>channel_id = ''sms'', channel_name = ''SMS/WhatsApp'', variants = []\<rparr>]
           (hd PRODUCT_DATABASE) [''Instagram Post''] ''Professional'' ''General'' 2 []
           ''gpt-4o-mini'')
       = [\<lparr>channel_id = ''sms'', channel_name = ''SMS/WhatsApp'', variants = []\<rparr>]\<close>
proof -
  let ?bad = \<open>example_env ''{"variants": "none"}'' (JObj [(''variants'', JStr ''none'')])\<close>
  let ?none = \<open>example_env ''{}'' (JObj [])\<close>
  let ?msg = "''Model response did not include a valid '' @ [CHR 0x27]
                @ ''variants'' @ [CHR 0x27] @ '' array.''"
  let ?pl = "compose_payload (snd (hd BRAND_STYLE_GUIDES)) (rules_for ''Skincare'')
      (hd PRODUCT_DATABASE) (CHANNELS ! 0) ''Professional'' ''General'' 2 [] ''gpt-4o-mini''"
  have c1: "parse_variants (JObj []) = Inr []"
    using variants_field_handling[of "[]"] by simp
  have c2: "parse_variants (JObj [(''variants'', JArr [JNull])]) = Inr [JNull]"
    using variants_field_handling[of "[(''variants'', JArr [JNull])]" "[JNull]"] by simp
  have c3: "parse_variants (JObj [(''variants'', JStr ''none'')]) = Inl (RuntimeError ?msg)"
    using variants_field_handling[of "[(''variants'', JStr ''none'')]" _ "JStr ''none''"] by simp
  have c4: "parse_variants (JArr []) = Inl AttributeError"
    using variants_field_handling[of _ _ _ "JArr []"] by simp
  have bp: "build_payload (hd PRODUCT_DATABASE) (CHANNELS ! 0) ''Professional'' ''General'' 2 []
      ''gpt-4o-mini'' = Inr ?pl"
    by (simp add: build_payload_def brand_pureglow p1_fields)
  have h5: \<open>strip (api_key ?bad) \<noteq> []
      \<and> build_payload (hd PRODUCT_DATABASE) (CHANNELS ! 0) ''Professional'' ''General'' 2 []
          ''gpt-4o-mini'' = Inr ?pl
      \<and> transport ?bad (length ([] :: payload list)) ?pl = Inr (chat_reply ''{"variants": "none"}'')
      \<and> loads ?bad (strip_json_fence ''{"variants": "none"}'')
          = Some (JObj [(''variants'', JStr ''none'')])\<close>
    by (simp add: bp example_env_def strip_key)
  have g5: "generate_for_channel ?bad [] (hd PRODUCT_DATABASE) (CHANNELS ! 0) ''Professional''
      ''General'' 2 [] ''gpt-4o-mini'' = (Inl (RuntimeError ?msg), [?pl])"
    using variants_field_handling[THEN conjunct2, THEN conjunct2, THEN conjunct2,
        THEN conjunct2, THEN conjunct1, rule_format, OF h5]
    by (simp only: c3 append_Nil)
  have c5: "fst (channel_loop ?bad (hd PRODUCT_DATABASE) ''Professional'' ''General'' 2 []
      ''gpt-4o-mini'' [] [] [CHANNELS ! 0]) = Inl (RuntimeError ?msg)"
    using variants_field_handling[THEN conjunct2, THEN conjunct2, THEN conjunct2,
        THEN conjunct2, THEN conjunct2, THEN conjunct1, rule_format, OF g5, of "[]" "[]"]
    by (simp only: fst_conv)
  have g6: "generate_for_channel ?none [] (hd PRODUCT_DATABASE) (CHANNELS ! 0) ''Professional''
      ''General'' 2 [] ''gpt-4o-mini'' = (Inr [], [?pl])"
    by (simp add: run_eval)
  have c6: "fst (channel_loop ?none (hd PRODUCT_DATABASE) ''Professional'' ''General'' 2 []
      ''gpt-4o-mini'' [] [] [CHANNELS ! 0])
    = Inr [\<lparr>channel_id = ''instagram'', channel_name = ''Instagram Post'', variants = []\<rparr>]"
    using variants_field_handling[THEN conjunct2, THEN conjunct2, THEN conjunct2,
        THEN conjunct2, THEN conjunct2, THEN conjunct2, THEN conjunct1, rule_format, OF g6,
        of "[]" "[]"]
    by (simp add: channel_fields)
  have o7: "run_outcome (generate_clicked ?bad
      [\<lparr>channel_id = ''sms'', channel_name = ''SMS/WhatsApp'', variants = []\<rparr>]
      (hd PRODUCT_DATABASE) [''Instagram Post''] ''Professional'' ''General'' 2 []
      ''gpt-4o-mini'') = Failed (RuntimeError ?msg)"
    by (simp add: run_eval)
  have c7: "session_results (generate_clicked ?bad
      [\<lparr>channel_id = ''sms'', channel_name = ''SMS/WhatsApp'', variants = []\<rparr>]
      (hd PRODUCT_DATABASE) [''Instagram Post''] ''Professional'' ''General'' 2 []
      ''gpt-4o-mini'')
    = [\<lparr>channel_id = ''sms'', channel_name = ''SMS/WhatsApp'', variants = []\<rparr>]"
    by (rule variants_field_handling[THEN conjunct2, THEN conjunct2, THEN conjunct2,
        THEN conjunct2, THEN conjunct2, THEN conjunct2, THEN conjunct2, rule_format, OF o7])
  show ?thesis
    by (intro conjI c1 c2 c3 c4 c5 c6 c7)
qed

text \<open>
  The specification's sentence that an empty or absent \<^verbatim>\<open>variants\<close> field fails the
  call does not hold: for a reply \<^verbatim>\<open>{"variants": []}\<close>, and for a reply \<^verbatim>\<open>{}\<close>, the
  run completes and records a result with no variants for the channel.
\<close>

theorem empty_variants_recorded:
  \<open>run_outcome
     (generate_clicked (example_env ''{"variants": []}'' (JObj [(''variants'', JArr [])])) []
        (hd PRODUCT_DATABASE) [''Instagram Post''] ''Professional'' ''General'' 2 []
        ''gpt-4o-mini'')
    = Completed
        [\<lparr>channel_id = ''instagram'', channel_name = ''Instagram Post'', variants = []\<rparr>]
   \<and> run_outcome
     (generate_clicked (example_env ''{}'' (JObj [])) []
        (hd PRODUCT_DATABASE) [''Instagram Post''] ''Professional'' ''General'' 2 []
        ''gpt-4o-mini'')
    = Completed
        [\<lparr>channel_id = ''instagram'', channel_name = ''Instagram Post'', variants = []\<rparr>]\<close>
  by (simp add: run_eval)

text \<open>
  C3, as the code has it.  A product whose brand is not a key of the brand style guides
  makes \<^verbatim>\<open>generate_for_channel\<close> fail with \<^verbatim>\<open>KeyError\<close> before any request is sent.
  A product of a known brand whose category is not a key of the rule catalogue raises
  nothing: the prompt is composed with the empty rule list, and its rules text is empty.
\<close>

theorem missing_reference_data:
  "(map_of BRAND_STYLE_GUIDES (p_brand product) = None \<longrightarrow>
      generate_for_channel e sent product ch tone season n custom model
        = (Inl (KeyError (p_brand product)), sent))
   \<and> (map_of BRAND_STYLE_GUIDES (p_brand product) = Some brand
        \<and> map_of COMPLIANCE_RULES (p_category product) = None \<longrightarrow>
      build_payload product ch tone season n custom model
        = Inr (compose_payload brand [] product ch tone season n custom model)
      \<and> rules_text (rules_for (p_category product)) = [])"
  by (simp add: generate_for_channel_def build_payload_def rules_for_unknown rules_text_Nil)

theorem missing_reference_data_witness:
  "generate_for_channel (example_env example_content example_parsed) []
      ((hd PRODUCT_DATABASE)\<lparr>p_brand := ''Acme''\<rparr>) (CHANNELS ! 0)
      ''Professional'' ''General'' 2 [] ''gpt-4o-mini''
    = (Inl (KeyError ''Acme''), [])
   \<and> build_payload ((hd PRODUCT_DATABASE)\<lparr>p_category := ''Pet Care''\<rparr>) (CHANNELS ! 0)
      ''Professional'' ''General'' 2 [] ''gpt-4o-mini''
    = Inr (compose_payload (snd (hd BRAND_STYLE_GUIDES)) []
             ((hd PRODUCT_DATABASE)\<lparr>p_category := ''Pet Care''\<rparr>) (CHANNELS ! 0)
             ''Professional'' ''General'' 2 [] ''gpt-4o-mini'')"
proof -
  have b: "map_of BRAND_STYLE_GUIDES (p_brand ((hd PRODUCT_DATABASE)\<lparr>p_brand := ''Acme''\<rparr>)) = None"
    by (simp add: BRAND_STYLE_GUIDES_def)
  have c1: "generate_for_channel (example_env example_content example_parsed) []
      ((hd PRODUCT_DATABASE)\<lparr>p_brand := ''Acme''\<rparr>) (CHANNELS ! 0)
      ''Professional'' ''General'' 2 [] ''gpt-4o-mini''
    = (Inl (KeyError ''Acme''), [])"
    using missing_reference_data[THEN conjunct1, rule_format, OF b] by simp
  have g: "map_of BRAND_STYLE_GUIDES (p_brand ((hd PRODUCT_DATABASE)\<lparr>p_category := ''Pet Care''\<rparr>))
       = Some (snd (hd BRAND_STYLE_GUIDES))
     \<and> map_of COMPLIANCE_RULES (p_category ((hd PRODUCT_DATABASE)\<lparr>p_category := ''Pet Care''\<rparr>))
       = None"
    by (simp add: brand_pureglow p1_fields COMPLIANCE_RULES_def build_rules_def raw_rules_def)
  have c2: "build_payload ((hd PRODUCT_DATABASE)\<lparr>p_category := ''Pet Care''\<rparr>) (CHANNELS ! 0)
      ''Professional'' ''General'' 2 [] ''gpt-4o-mini''
    = Inr (compose_payload (snd (hd BRAND_STYLE_GUIDES)) []
             ((hd PRODUCT_DATABASE)\<lparr>p_category := ''Pet Care''\<rparr>) (CHANNELS ! 0)
             ''Professional'' ''General'' 2 [] ''gpt-4o-mini'')"
    by (rule missing_reference_data[THEN conjunct2, rule_format, OF g, THEN conjunct1])
  show ?thesis by (intro conjI c1 c2)
qed

text \<open>
  The specification's sentence that a missing category fails prompt composition does not
  hold: for the first product with its category changed to \<^verbatim>\<open>Pet Care\<close>, which the
  catalogue does not know, the request body is composed, with no rules.
\<close>

theorem unknown_category_composes:
  "build_payload ((hd PRODUCT_DATABASE)\<lparr>p_category := ''Pet Care''\<rparr>) (CHANNELS ! 0)
      ''Professional'' ''General'' 2 [] ''gpt-4o-mini''
    = Inr (compose_payload (snd (hd BRAND_STYLE_GUIDES)) []
             ((hd PRODUCT_DATABASE)\<lparr>p_category := ''Pet Care''\<rparr>) (CHANNELS ! 0)
             ''Professional'' ''General'' 2 [] ''gpt-4o-mini'')
   \<and> map_of BRAND_STYLE_GUIDES (p_brand ((hd PRODUCT_DATABASE)\<lparr>p_category := ''Pet Care''\<rparr>))
       = Some (snd (hd BRAND_STYLE_GUIDES))
   \<and> map_of COMPLIANCE_RULES (p_category ((hd PRODUCT_DATABASE)\<lparr>p_category := ''Pet Care''\<rparr>))
       = None"
  by (simp add: build_payload_def brand_pureglow p1_fields rules_for_def
        COMPLIANCE_RULES_def build_rules_def raw_rules_def)

text \<open>
  C6.  When a run completes, its results are in the order of the request: the channel
  names of the results are the selected labels, in order, their identifiers are those
  of the channels of these names, and one request was sent for each label.
\<close>

theorem results_in_request_order:
  assumes "run_outcome (generate_clicked e session product labels tone season n custom model)
             = Completed results"
  shows "map channel_name results = labels
         \<and> map (\<lambda>r. Some (channel_id r)) results
             = map (\<lambda>l. map_option c_id (channel_options l)) labels
         \<and> length (run_requests
              (generate_clicked e session product labels tone season n custom model))
             = length labels"
proof -
  from assms have ne: "labels \<noteq> []"
    by (auto simp: generate_clicked_def)
  from assms ne obtain chs where chs: "lookup_channels labels = Inr chs"
    by (auto simp: generate_clicked_def split: sum.splits)
  from assms ne chs obtain sent where
    loop: "channel_loop e product tone season n custom model [] [] chs = (Inr results, sent)"
    by (auto simp: generate_clicked_def split: sum.splits prod.splits)
  from ne chs loop have req:
    "run_requests (generate_clicked e session product labels tone season n custom model) = sent"
    by (simp add: generate_clicked_def)
  from lookup_channels_names[OF chs] have names: "map c_name chs = labels"
    and opts: "map (\<lambda>c. Some c) chs = map channel_options labels"
    by simp_all
  from channel_loop_order[OF loop] have
    pairs: "map (\<lambda>r. (channel_id r, channel_name r)) results = map (\<lambda>c. (c_id c, c_name c)) chs"
    and len: "length sent = length chs"
    by simp_all
  from pairs have "map snd (map (\<lambda>r. (channel_id r, channel_name r)) results)
      = map snd (map (\<lambda>c. (c_id c, c_name c)) chs)"
    by simp
  then have a: "map channel_name results = labels"
    using names by (simp add: comp_def)
  from pairs have "map fst (map (\<lambda>r. (channel_id r, channel_name r)) results)
      = map fst (map (\<lambda>c. (c_id c, c_name c)) chs)"
    by simp
  then have ids: "map channel_id results = map c_id chs"
    by (simp add: comp_def)
  have "map (\<lambda>l. map_option c_id (channel_options l)) labels
      = map (map_option c_id) (map channel_options labels)"
    by (simp add: comp_def)
  also have "\<dots> = map (map_option c_id) (map (\<lambda>c. Some c) chs)"
    by (simp only: opts)
  also have "\<dots> = map (\<lambda>r. Some (channel_id r)) results"
  proof -
    from ids have "map Some (map c_id chs) = map Some (map channel_id results)"
      by simp
    then show ?thesis by (simp add: comp_def)
  qed
  finally have b: "map (\<lambda>r. Some (channel_id r)) results
             = map (\<lambda>l. map_option c_id (channel_options l)) labels"
    by simp
  from names have "length chs = length labels"
    by (metis length_map)
  with req len have c: "length (run_requests
              (generate_clicked e session product labels tone season n custom model))
             = length labels"
    by simp
  from a b c show ?thesis by blast
qed

theorem results_in_request_order_witness:
  "map channel_name
     [\<lparr>channel_id = ''email'', channel_name = ''Email Campaign'',
         variants =
           [JObj [(''headline'', JStr ''Cure it''), (''body'', JStr ''now''), (''cta'', JStr ''Buy''),
                  (''_compliance_issues'',
                   JArr [JObj [(''rule'', JStr ''No disease treatment claims''),
                               (''severity'', JStr ''critical''),
                               (''matches'', JArr [JStr ''Cure''])]]),
                  (''_compliance_score'', JStr ''Needs Review'')]]\<rparr>,
       \<lparr>channel_id = ''instagram'', channel_name = ''Instagram Post'',
         variants =
           [JObj [(''headline'', JStr ''Cure it''), (''body'', JStr ''now''), (''cta'', JStr ''Buy''),
                  (''_compliance_issues'',
                   JArr [JObj [(''rule'', JStr ''No disease treatment claims''),
                               (''severity'', JStr ''critical''),
                               (''matches'', JArr [JStr ''Cure''])]]),
                  (''_compliance_score'', JStr ''Needs Review'')]]\<rparr>]
   = [''Email Campaign'', ''Instagram Post'']
   \<and> length (run_requests (generate_clicked (example_env example_content example_parsed) []
        (hd PRODUCT_DATABASE) [''Email Campaign'', ''Instagram Post'']
        ''Professional'' ''General'' 2 [] ''gpt-4o-mini''))
     = length [''Email Campaign'', ''Instagram Post'']"
  using results_in_request_order[OF eval_example_run] by (intro conjI) (elim conjE, assumption)+

text \<open>
  C7.  With no channel selected, the request is rejected with the message
  \<^verbatim>\<open>Select at least one channel.\<close>: no request is sent, no result is produced, and
  the stored results of the session stay as they were.
\<close>

theorem empty_selection_rejected:
  "generate_clicked e session product [] tone season n custom model
     = \<lparr>run_outcome = Rejected ''Select at least one channel.'', run_requests = [],
        session_results = session\<rparr>"
  by (simp add: generate_clicked_def)

text \<open>
  C10, as the code has it.  Enriching a variant that is a dictionary writes the issues
  under \<^verbatim>\<open>_compliance_issues\<close> and the verdict under \<^verbatim>\<open>_compliance_score\<close>; every
  other key keeps its value, and the other fields keep their order.  When the reply
  carried neither key, the two fields are added after the reply's fields, in that order.
  The variants of a channel keep their number and their order: when all of them are
  dictionaries the enrichment succeeds, and the loop over the channels records the
  enriched variants under the channel's identifier and name and goes on; a run whose
  loop ends this way stores its results.  A variant that is not a dictionary raises
  \<^verbatim>\<open>AttributeError\<close>: the enrichment of the channel fails, the loop over the channels
  ends with that error and records nothing for the channel, and the run fails with it,
  the stored results of the session staying as they were.
\<close>

theorem enrichment_frame:
  "(\<exists>kvs'. enrich_variant e category (JObj kvs) = Inr (JObj kvs')
      \<and> map_of kvs' ''_compliance_issues''
          = Some (JArr (map issue_json (check_compliance (variant_text e kvs) category)))
      \<and> map_of kvs' ''_compliance_score''
          = Some (JStr (get_compliance_score (check_compliance (variant_text e kvs) category)))
      \<and> (\<forall>k. k \<noteq> ''_compliance_issues'' \<and> k \<noteq> ''_compliance_score'' \<longrightarrow>
            map_of kvs' k = map_of kvs k)
      \<and> filter (\<lambda>p. fst p \<notin> {''_compliance_issues'', ''_compliance_score''}) kvs'
          = filter (\<lambda>p. fst p \<notin> {''_compliance_issues'', ''_compliance_score''}) kvs
      \<and> (''_compliance_issues'' \<notin> fst ` set kvs \<and> ''_compliance_score'' \<notin> fst ` set kvs \<longrightarrow>
            kvs' = kvs @
              [(''_compliance_issues'',
                JArr (map issue_json (check_compliance (variant_text e kvs) category))),
               (''_compliance_score'',
                JStr (get_compliance_score (check_compliance (variant_text e kvs) category)))]))
   \<and> (enrich_loop e category [] vs = Inr enriched \<longrightarrow>
        length enriched = length vs
        \<and> map Inr enriched = map (enrich_variant e category) vs)
   \<and> ((\<forall>ys. v \<noteq> JObj ys) \<longrightarrow> enrich_variant e category v = Inl AttributeError)
   \<and> ((\<forall>x \<in> set vs. \<exists>ys. x = JObj ys) \<longrightarrow>
        (\<exists>out. enrich_loop e category [] vs = Inr out))
   \<and> ((\<exists>x \<in> set vs. \<forall>ys. x \<noteq> JObj ys) \<longrightarrow>
        enrich_loop e category [] vs = Inl AttributeError)
   \<and> (generate_for_channel e sent product ch tone season n custom model = (Inr vs, sent')
        \<and> enrich_loop e (p_category product) [] vs = Inr enriched \<longrightarrow>
        channel_loop e product tone season n custom model results sent (ch # rest)
          = channel_loop e product tone season n custom model
              (results @ [\<lparr>channel_id = c_id ch, channel_name = c_name ch,
                            variants = enriched\<rparr>])
              sent' rest)
   \<and> (generate_for_channel e sent product ch tone season n custom model = (Inr vs, sent')
        \<and> (\<exists>x \<in> set vs. \<forall>ys. x \<noteq> JObj ys) \<longrightarrow>
        channel_loop e product tone season n custom model results sent (ch # rest)
          = (Inl AttributeError, sent'))
   \<and> (labels \<noteq> [] \<and> lookup_channels labels = Inr chs
        \<and> channel_loop e product tone season n custom model [] [] chs = (Inl err, requests) \<longrightarrow>
        generate_clicked e session product labels tone season n custom model
          = \<lparr>run_outcome = Failed err, run_requests = requests, session_results = session\<rparr>)
   \<and> (labels \<noteq> [] \<and> lookup_channels labels = Inr chs
        \<and> channel_loop e product tone season n custom model [] [] chs = (Inr recorded, requests)
        \<longrightarrow>
        generate_clicked e session product labels tone season n custom model
          = \<lparr>run_outcome = Completed recorded, run_requests = requests,
             session_results = recorded\<rparr>)"
proof -
  note core = enrichment_core[of e category kvs vs enriched v]
  have total: "(\<forall>x \<in> set vs. \<exists>ys. x = JObj ys) \<longrightarrow>
        (\<exists>out. enrich_loop e category [] vs = Inr out)"
    using enrich_loop_total[of vs e category "[]"] by blast
  have abort: "(\<exists>x \<in> set vs. \<forall>ys. x \<noteq> JObj ys) \<longrightarrow>
        enrich_loop e category [] vs = Inl AttributeError"
    using enrich_loop_abort[of vs e category "[]"] by blast
  have rec: "generate_for_channel e sent product ch tone season n custom model = (Inr vs, sent')
        \<and> enrich_loop e (p_category product) [] vs = Inr enriched \<longrightarrow>
        channel_loop e product tone season n custom model results sent (ch # rest)
          = channel_loop e product tone season n custom model
              (results @ [\<lparr>channel_id = c_id ch, channel_name = c_name ch,
                            variants = enriched\<rparr>])
              sent' rest"
    by (rule impI) (rule channel_loop_record)
  have ab: "generate_for_channel e sent product ch tone season n custom model = (Inr vs, sent')
        \<and> (\<exists>x \<in> set vs. \<forall>ys. x \<noteq> JObj ys) \<longrightarrow>
        channel_loop e product tone season n custom model results sent (ch # rest)
          = (Inl AttributeError, sent')"
    by (rule impI) (rule channel_loop_abort)
  have failed: "labels \<noteq> [] \<and> lookup_channels labels = Inr chs
        \<and> channel_loop e product tone season n custom model [] [] chs = (Inl err, requests) \<longrightarrow>
        generate_clicked e session product labels tone season n custom model
          = \<lparr>run_outcome = Failed err, run_requests = requests, session_results = session\<rparr>"
    by (rule impI) (rule generate_clicked_failed)
  have completed: "labels \<noteq> [] \<and> lookup_channels labels = Inr chs
        \<and> channel_loop e product tone season n custom model [] [] chs = (Inr recorded, requests)
        \<longrightarrow>
        generate_clicked e session product labels tone season n custom model
          = \<lparr>run_outcome = Completed recorded, run_requests = requests,
             session_results = recorded\<rparr>"
    by (rule impI) (rule generate_clicked_completed)
  show ?thesis
    by (intro conjI conjunct1[OF core] conjunct1[OF conjunct2[OF core]]
          conjunct2[OF conjunct2[OF core]] total abort rec ab failed completed)
qed

theorem enrichment_frame_witness:
  \<open>enrich_variant (example_env example_content example_parsed) ''Skincare''
     (JObj [(''headline'', JStr ''Cure it''), (''body'', JStr ''now''), (''cta'', JStr ''Buy'')])
   = Inr (JObj [(''headline'', JStr ''Cure it''), (''body'', JStr ''now''), (''cta'', JStr ''Buy''),
                (''_compliance_issues'',
                 JArr [JObj [(''rule'', JStr ''No disease treatment claims''),
                             (''severity'', JStr ''critical''),
                             (''matches'', JArr [JStr ''Cure''])]]),
                (''_compliance_score'', JStr ''Needs Review'')])
   \<and> map Inr
       [JObj [(''headline'', JStr ''Cure it''), (''body'', JStr ''now''), (''cta'', JStr ''Buy''),
              (''_compliance_issues'',
               JArr [JObj [(''rule'', JStr ''No disease treatment claims''),
                           (''severity'', JStr ''critical''),
                           (''matches'', JArr [JStr ''Cure''])]]),
              (''_compliance_score'', JStr ''Needs Review'')]]
     = map (enrich_variant (example_env example_content example_parsed) ''Skincare'')
         [JObj [(''headline'', JStr ''Cure it''), (''body'', JStr ''now''), (''cta'', JStr ''Buy'')]]
   \<and> enrich_variant (example_env example_content example_parsed) ''Skincare'' (JStr ''Glow'')
     = Inl AttributeError
   \<and> (\<exists>out. enrich_loop (example_env example_content example_parsed) ''Skincare'' []
         [JObj [(''headline'', JStr ''Cure it''), (''body'', JStr ''now''), (''cta'', JStr ''Buy'')]]
       = Inr out)
   \<and> enrich_loop (example_env example_content example_parsed) ''Skincare'' []
         [JObj [(''headline'', JStr ''Cure it''), (''body'', JStr ''now''), (''cta'', JStr ''Buy'')],
          JStr ''Glow'']
     = Inl AttributeError
   \<and> generate_clicked (example_env example_content example_parsed) []
         (hd PRODUCT_DATABASE) [''Instagram Post''] ''Professional'' ''General'' 2 []
         ''gpt-4o-mini''
     = \<lparr>run_outcome = Completed
          [\<lparr>channel_id = ''instagram'', channel_name = ''Instagram Post'',
             variants =
               [JObj [(''headline'', JStr ''Cure it''), (''body'', JStr ''now''),
                      (''cta'', JStr ''Buy''),
                      (''_compliance_issues'',
                       JArr [JObj [(''rule'', JStr ''No disease treatment claims''),
                                   (''severity'', JStr ''critical''),
                                   (''matches'', JArr [JStr ''Cure''])]]),
                      (''_compliance_score'', JStr ''Needs Review'')]]\<rparr>],
        run_requests =
          [compose_payload (snd (hd BRAND_STYLE_GUIDES)) (rules_for ''Skincare'')
             (hd PRODUCT_DATABASE) (CHANNELS ! 0) ''Professional'' ''General'' 2 []
             ''gpt-4o-mini''],
        session_results =
          [\<lparr>channel_id = ''instagram'', channel_name = ''Instagram Post'',
             variants =
               [JObj [(''headline'', JStr ''Cure it''), (''body'', JStr ''now''),
                      (''cta'', JStr ''Buy''),
                      (''_compliance_issues'',
                       JArr [JObj [(''rule'', JStr ''No disease treatment claims''),
                                   (''severity'', JStr ''critical''),
                                   (''matches'', JArr [JStr ''Cure''])]]),
                      (''_compliance_score'', JStr ''Needs Review'')]]\<rparr>]\<rparr>
   \<and> generate_clicked
         (example_env ''{"variants": ["Glow"]}'' (JObj [(''variants'', JArr [JStr ''Glow''])]))
         [\<lparr>channel_id = ''sms'', channel_name = ''SMS/WhatsApp'', variants = []\<rparr>]
         (hd PRODUCT_DATABASE) [''Instagram Post''] ''Professional'' ''General'' 2 []
         ''gpt-4o-mini''
     = \<lparr>run_outcome = Failed AttributeError,
        run_requests =
          [compose_payload (snd (hd BRAND_STYLE_GUIDES)) (rules_for ''Skincare'')
             (hd PRODUCT_DATABASE) (CHANNELS ! 0) ''Professional'' ''General'' 2 []
             ''gpt-4o-mini''],
        session_results =
          [\<lparr>channel_id = ''sms'', channel_name = ''SMS/WhatsApp'', variants = []\<rparr>]\<rparr>\<close>
proof -
  let ?e = "example_env example_content example_parsed"
  let ?bad = \<open>example_env ''{"variants": ["Glow"]}'' (JObj [(''variants'', JArr [JStr ''Glow''])])\<close>
  let ?old = "[\<lparr>channel_id = ''sms'', channel_name = ''SMS/WhatsApp'', variants = []\<rparr>]"
  let ?kvs = "[(''headline'', JStr ''Cure it''), (''body'', JStr ''now''), (''cta'', JStr ''Buy'')]"
  let ?out = "JObj [(''headline'', JStr ''Cure it''), (''body'', JStr ''now''), (''cta'', JStr ''Buy''),
                (''_compliance_issues'',
                 JArr [JObj [(''rule'', JStr ''No disease treatment claims''),
                             (''severity'', JStr ''critical''),
                             (''matches'', JArr [JStr ''Cure''])]]),
                (''_compliance_score'', JStr ''Needs Review'')]"
  let ?pl = "compose_payload (snd (hd BRAND_STYLE_GUIDES)) (rules_for ''Skincare'')
      (hd PRODUCT_DATABASE) (CHANNELS ! 0) ''Professional'' ''General'' 2 [] ''gpt-4o-mini''"
  let ?rec = "\<lparr>channel_id = ''instagram'', channel_name = ''Instagram Post'',
      variants = [?out]\<rparr>"
  have vt: "variant_text ?e ?kvs = ''Cure it now Buy''"
    by (simp add: variant_text_def get_field_def format_value_def)
  from enrichment_frame[of ?e "''Skincare''" ?kvs, THEN conjunct1] obtain kvs' where
    k: "enrich_variant ?e ''Skincare'' (JObj ?kvs) = Inr (JObj kvs')"
    and app: "''_compliance_issues'' \<notin> fst ` set ?kvs \<and> ''_compliance_score'' \<notin> fst ` set ?kvs \<longrightarrow>
            kvs' = ?kvs @
              [(''_compliance_issues'',
                JArr (map issue_json (check_compliance (variant_text ?e ?kvs) ''Skincare''))),
               (''_compliance_score'',
                JStr (get_compliance_score (check_compliance (variant_text ?e ?kvs) ''Skincare'')))]"
    by (elim exE conjE)
  have absent: "''_compliance_issues'' \<notin> fst ` set ?kvs \<and> ''_compliance_score'' \<notin> fst ` set ?kvs"
    by simp
  from app absent have "kvs' = ?kvs @
              [(''_compliance_issues'',
                JArr (map issue_json (check_compliance (variant_text ?e ?kvs) ''Skincare''))),
               (''_compliance_score'',
                JStr (get_compliance_score (check_compliance (variant_text ?e ?kvs) ''Skincare'')))]"
    by (rule mp)
  with k have c1: "enrich_variant ?e ''Skincare'' (JObj ?kvs) = Inr ?out"
    by (simp add: vt eval_cure_it issue_json_def get_compliance_score_def)
  then have loop: "enrich_loop ?e ''Skincare'' [] [JObj ?kvs] = Inr [?out]"
    by simp
  have c2: "map Inr [?out] = map (enrich_variant ?e ''Skincare'') [JObj ?kvs]"
    by (rule enrichment_frame[THEN conjunct2, THEN conjunct1, rule_format, OF loop,
          THEN conjunct2])
  have c3: "enrich_variant ?e ''Skincare'' (JStr ''Glow'') = Inl AttributeError"
    by (rule enrichment_frame[THEN conjunct2, THEN conjunct2, THEN conjunct1, rule_format])
       simp
  have c4: "\<exists>out. enrich_loop ?e ''Skincare'' [] [JObj ?kvs] = Inr out"
    by (rule enrichment_frame[THEN conjunct2, THEN conjunct2, THEN conjunct2,
          THEN conjunct1, rule_format]) simp
  have c5: "enrich_loop ?e ''Skincare'' [] [JObj ?kvs, JStr ''Glow''] = Inl AttributeError"
    by (rule enrichment_frame[THEN conjunct2, THEN conjunct2, THEN conjunct2,
          THEN conjunct2, THEN conjunct1, rule_format]) simp
  have g6: "generate_for_channel ?e [] (hd PRODUCT_DATABASE) (CHANNELS ! 0) ''Professional''
      ''General'' 2 [] ''gpt-4o-mini'' = (Inr [JObj ?kvs], [?pl])
    \<and> enrich_loop ?e (p_category (hd PRODUCT_DATABASE)) [] [JObj ?kvs] = Inr [?out]"
    using loop by (simp add: run_eval example_parsed_def)
  have s6: "channel_loop ?e (hd PRODUCT_DATABASE) ''Professional'' ''General'' 2 []
      ''gpt-4o-mini'' [] [] [CHANNELS ! 0] = (Inr [?rec], [?pl])"
    using enrichment_frame[THEN conjunct2, THEN conjunct2, THEN conjunct2, THEN conjunct2,
        THEN conjunct2, THEN conjunct1, rule_format, OF g6, of "[]" "[]"]
    by (simp add: channel_fields)
  have h6: "[''Instagram Post''] \<noteq> [] \<and> lookup_channels [''Instagram Post''] = Inr [CHANNELS ! 0]
    \<and> channel_loop ?e (hd PRODUCT_DATABASE) ''Professional'' ''General'' 2 []
      ''gpt-4o-mini'' [] [] [CHANNELS ! 0] = (Inr [?rec], [?pl])"
    using s6 lookup_instagram by simp
  have c6: "generate_clicked ?e [] (hd PRODUCT_DATABASE) [''Instagram Post''] ''Professional''
      ''General'' 2 [] ''gpt-4o-mini''
    = \<lparr>run_outcome = Completed [?rec], run_requests = [?pl], session_results = [?rec]\<rparr>"
    by (rule enrichment_frame[THEN conjunct2, THEN conjunct2, THEN conjunct2, THEN conjunct2,
        THEN conjunct2, THEN conjunct2, THEN conjunct2, THEN conjunct2, rule_format, OF h6])
  have g7: "generate_for_channel ?bad [] (hd PRODUCT_DATABASE) (CHANNELS ! 0) ''Professional''
      ''General'' 2 [] ''gpt-4o-mini'' = (Inr [JStr ''Glow''], [?pl])
    \<and> (\<exists>x \<in> set [JStr ''Glow'']. \<forall>ys. x \<noteq> JObj ys)"
    by (simp add: run_eval)
  have s7: "channel_loop ?bad (hd PRODUCT_DATABASE) ''Professional'' ''General'' 2 []
      ''gpt-4o-mini'' [] [] [CHANNELS ! 0] = (Inl AttributeError, [?pl])"
    by (rule enrichment_frame[THEN conjunct2, THEN conjunct2, THEN conjunct2, THEN conjunct2,
        THEN conjunct2, THEN conjunct2, THEN conjunct1, rule_format, OF g7])
  have h7: "[''Instagram Post''] \<noteq> [] \<and> lookup_channels [''Instagram Post''] = Inr [CHANNELS ! 0]
    \<and> channel_loop ?bad (hd PRODUCT_DATABASE) ''Professional'' ''General'' 2 []
      ''gpt-4o-mini'' [] [] [CHANNELS ! 0] = (Inl AttributeError, [?pl])"
    using s7 lookup_instagram by simp
  have c7: "generate_clicked ?bad ?old (hd PRODUCT_DATABASE) [''Instagram Post'']
      ''Professional'' ''General'' 2 [] ''gpt-4o-mini''
    = \<lparr>run_outcome = Failed AttributeError, run_requests = [?pl], session_results = ?old\<rparr>"
    by (rule enrichment_frame[THEN conjunct2, THEN conjunct2, THEN conjunct2, THEN conjunct2,
        THEN conjunct2, THEN conjunct2, THEN conjunct2, THEN conjunct1, rule_format, OF h7])
  show ?thesis by (intro conjI c1 c2 c3 c4 c5 c6 c7)
qed

text \<open>
  The specification's sentence that every field of the reply is left unchanged and that
  exactly two fields are added, for every variant, does not hold: a variant whose reply
  already carries \<^verbatim>\<open>_compliance_score\<close> has that field overwritten and gains one field
  only, and a variant that is a string aborts the enrichment.
\<close>

theorem reply_field_overwritten:
  "enrich_variant (example_env example_content example_parsed) ''Skincare''
     (JObj [(''headline'', JStr ''Glow''), (''_compliance_score'', JStr ''Approved'')])
   = Inr (JObj [(''headline'', JStr ''Glow''), (''_compliance_score'', JStr ''Compliant''),
                (''_compliance_issues'', JArr [])])
   \<and> enrich_variant (example_env example_content example_parsed) ''Skincare'' (JStr ''Glow'')
   = Inl AttributeError"
  by (simp add: variant_text_def get_field_def format_value_def eval_glow
        get_compliance_score_def)

end
